theory Spec2Isabelle
  imports Complex_Main "HOL-Library.Word" "HOL-Library.Signed_Division"
    "HOL-Library.Monad_Syntax"
begin

section \<open>Arithmetic of the program\<close>

text \<open>
  The program computes on \<^verbatim>\<open>float\<close> and \<^verbatim>\<open>double\<close> values. Their operations
  are taken as a parameter: a record of functions over a type \<open>'f\<close> of float values and a
  type \<open>'d\<close> of double values. A theorem stated for every such record holds for the
  machine's binary32 and binary64 operations, whatever their rounding.

  \<^item> \<open>fadd\<close>, \<open>fsub\<close>, \<open>fmul\<close>, \<open>fdiv\<close>, \<open>flog\<close>: the float operations;
  \<^item> \<open>dadd\<close>, \<open>dsub\<close>, \<open>dmul\<close>, \<open>ddiv\<close>, \<open>dlog\<close>: the double operations
    (\<open>dlog\<close> is \<^verbatim>\<open>std::log\<close>);
  \<^item> \<open>f2d\<close>, \<open>d2f\<close>: the conversions between the two;
  \<^item> \<open>fbool\<close>, \<open>dbool\<close>: the conversion of a \<^verbatim>\<open>bool\<close> to float and to double;
  \<^item> \<open>d_one\<close>, \<open>d_tenth\<close>: the double literals \<^verbatim>\<open>1.0\<close> and \<^verbatim>\<open>0.1\<close>;
  \<^item> \<open>f_zero\<close>: the float of a value-initialised member.
\<close>

record ('f, 'd) arith =
  fadd :: "'f \<Rightarrow> 'f \<Rightarrow> 'f"
  fsub :: "'f \<Rightarrow> 'f \<Rightarrow> 'f"
  fmul :: "'f \<Rightarrow> 'f \<Rightarrow> 'f"
  fdiv :: "'f \<Rightarrow> 'f \<Rightarrow> 'f"
  flog :: "'f \<Rightarrow> 'f"
  dadd :: "'d \<Rightarrow> 'd \<Rightarrow> 'd"
  dsub :: "'d \<Rightarrow> 'd \<Rightarrow> 'd"
  dmul :: "'d \<Rightarrow> 'd \<Rightarrow> 'd"
  ddiv :: "'d \<Rightarrow> 'd \<Rightarrow> 'd"
  dlog :: "'d \<Rightarrow> 'd"
  f2d :: "'f \<Rightarrow> 'd"
  d2f :: "'d \<Rightarrow> 'f"
  fbool :: "bool \<Rightarrow> 'f"
  dbool :: "bool \<Rightarrow> 'd"
  d_one :: "'d"
  d_tenth :: "'d"
  f_zero :: "'f"

subsection \<open>An idealised instance: exact finite results\<close>

text \<open>
  A small instance for evaluating the theorems that hold for every arithmetic: values
  that are a finite real, an infinity or NaN, with exact finite results. It is an
  idealisation and not the arithmetic of the machine: nothing is rounded, nothing
  overflows or underflows, float and double are the same values, the literal
  \<^verbatim>\<open>0.1\<close> is the real number \<open>1 / 10\<close> and there is a single zero. Infinities and
  NaN follow IEEE 754. No statement about rounding is made in it; the binary32 and
  binary64 arithmetic of the program is the instance \<open>ieee_arith\<close> below.
\<close>

datatype fl = Fin real | PInf | NInf | NaN

fun fl_neg :: "fl \<Rightarrow> fl" where
  "fl_neg (Fin a) = Fin (- a)"
| "fl_neg PInf = NInf"
| "fl_neg NInf = PInf"
| "fl_neg NaN = NaN"

fun fl_add :: "fl \<Rightarrow> fl \<Rightarrow> fl" where
  "fl_add NaN _ = NaN"
| "fl_add _ NaN = NaN"
| "fl_add (Fin a) (Fin b) = Fin (a + b)"
| "fl_add PInf NInf = NaN"
| "fl_add NInf PInf = NaN"
| "fl_add PInf _ = PInf"
| "fl_add NInf _ = NInf"
| "fl_add (Fin a) PInf = PInf"
| "fl_add (Fin a) NInf = NInf"

definition fl_sub :: "fl \<Rightarrow> fl \<Rightarrow> fl" where
  "fl_sub a b = fl_add a (fl_neg b)"

fun fl_mul :: "fl \<Rightarrow> fl \<Rightarrow> fl" where
  "fl_mul NaN _ = NaN"
| "fl_mul _ NaN = NaN"
| "fl_mul (Fin a) (Fin b) = Fin (a * b)"
| "fl_mul PInf PInf = PInf"
| "fl_mul PInf NInf = NInf"
| "fl_mul NInf PInf = NInf"
| "fl_mul NInf NInf = PInf"
| "fl_mul (Fin a) PInf = (if a = 0 then NaN else if 0 < a then PInf else NInf)"
| "fl_mul (Fin a) NInf = (if a = 0 then NaN else if 0 < a then NInf else PInf)"
| "fl_mul PInf (Fin b) = (if b = 0 then NaN else if 0 < b then PInf else NInf)"
| "fl_mul NInf (Fin b) = (if b = 0 then NaN else if 0 < b then NInf else PInf)"

fun fl_div :: "fl \<Rightarrow> fl \<Rightarrow> fl" where
  "fl_div NaN _ = NaN"
| "fl_div _ NaN = NaN"
| "fl_div (Fin a) (Fin b) =
     (if b = 0 then (if a = 0 then NaN else if 0 < a then PInf else NInf)
      else Fin (a / b))"
| "fl_div (Fin a) PInf = Fin 0"
| "fl_div (Fin a) NInf = Fin 0"
| "fl_div PInf (Fin b) = (if 0 \<le> b then PInf else NInf)"
| "fl_div NInf (Fin b) = (if 0 \<le> b then NInf else PInf)"
| "fl_div PInf _ = NaN"
| "fl_div NInf _ = NaN"

fun fl_log :: "fl \<Rightarrow> fl" where
  "fl_log NaN = NaN"
| "fl_log PInf = PInf"
| "fl_log NInf = NaN"
| "fl_log (Fin a) = (if a < 0 then NaN else if a = 0 then NInf else Fin (ln a))"

definition fl_bool :: "bool \<Rightarrow> fl" where
  "fl_bool c = (if c then Fin 1 else Fin 0)"

definition exact_arith :: "(fl, fl) arith" where
  "exact_arith =
     \<lparr> fadd = fl_add, fsub = fl_sub, fmul = fl_mul, fdiv = fl_div, flog = fl_log,
       dadd = fl_add, dsub = fl_sub, dmul = fl_mul, ddiv = fl_div, dlog = fl_log,
       f2d = (\<lambda>v. v), d2f = (\<lambda>v. v), fbool = fl_bool, dbool = fl_bool,
       d_one = Fin 1, d_tenth = Fin (1 / 10), f_zero = Fin 0 \<rparr>"

subsection \<open>The instance of the program: IEEE 754 binary32 and binary64\<close>

text \<open>
  \<^verbatim>\<open>float\<close> is IEEE 754 binary32 and \<^verbatim>\<open>double\<close> is binary64. A value is a finite
  real (\<open>Finite 0\<close> is \<^verbatim>\<open>+0\<close>), the negative zero, an infinity or NaN.
\<close>

datatype fp = Finite real | NegZero | PosInf | NegInf | NotANumber

text \<open>The classes of a value, its sign bit and its real value (0 where it has none).\<close>

fun fp_nan :: "fp \<Rightarrow> bool" where
  "fp_nan NotANumber = True"
| "fp_nan _ = False"

fun fp_inf :: "fp \<Rightarrow> bool" where
  "fp_inf PosInf = True"
| "fp_inf NegInf = True"
| "fp_inf _ = False"

fun fp_zero :: "fp \<Rightarrow> bool" where
  "fp_zero (Finite a) = (a = 0)"
| "fp_zero NegZero = True"
| "fp_zero _ = False"

fun fp_finite :: "fp \<Rightarrow> bool" where
  "fp_finite (Finite a) = True"
| "fp_finite NegZero = True"
| "fp_finite _ = False"

fun signbit :: "fp \<Rightarrow> bool" where
  "signbit (Finite a) = (a < 0)"
| "signbit NegZero = True"
| "signbit NegInf = True"
| "signbit _ = False"

fun fp_val :: "fp \<Rightarrow> real" where
  "fp_val (Finite a) = a"
| "fp_val _ = 0"

definition zero_of :: "bool \<Rightarrow> fp" where
  "zero_of s = (if s then NegZero else Finite 0)"

definition inf_of :: "bool \<Rightarrow> fp" where
  "inf_of s = (if s then NegInf else PosInf)"

text \<open>
  The operations of IEEE 754, over a rounding \<open>r\<close> from the exact real result to the
  format. An operation on a NaN is a NaN; \<open>\<infinity> - \<infinity>\<close>, \<open>0 * \<infinity>\<close>, \<open>\<infinity> / \<infinity>\<close> and \<open>0 / 0\<close> are NaN;
  a nonzero value divided by a zero is an infinity; the sign of a product or quotient is
  the exclusive or of the signs; an exact zero sum of nonzero values is \<^verbatim>\<open>+0\<close>, and a
  sum of zeros is \<^verbatim>\<open>-0\<close> only when both are. Any other result is the exact real
  result, rounded.
\<close>

fun fp_neg :: "fp \<Rightarrow> fp" where
  "fp_neg (Finite a) = (if a = 0 then NegZero else Finite (- a))"
| "fp_neg NegZero = Finite 0"
| "fp_neg PosInf = NegInf"
| "fp_neg NegInf = PosInf"
| "fp_neg NotANumber = NotANumber"

definition fp_add :: "(real \<Rightarrow> fp) \<Rightarrow> fp \<Rightarrow> fp \<Rightarrow> fp" where
  "fp_add r u v =
     (if fp_nan u \<or> fp_nan v then NotANumber
      else if fp_inf u then (if fp_inf v \<and> u \<noteq> v then NotANumber else u)
      else if fp_inf v then v
      else if fp_zero u then (if fp_zero v then zero_of (signbit u \<and> signbit v) else v)
      else if fp_zero v then u
      else if fp_val u + fp_val v = 0 then Finite 0
      else r (fp_val u + fp_val v))"

definition fp_sub :: "(real \<Rightarrow> fp) \<Rightarrow> fp \<Rightarrow> fp \<Rightarrow> fp" where
  "fp_sub r u v = fp_add r u (fp_neg v)"

definition fp_mul :: "(real \<Rightarrow> fp) \<Rightarrow> fp \<Rightarrow> fp \<Rightarrow> fp" where
  "fp_mul r u v =
     (if fp_nan u \<or> fp_nan v then NotANumber
      else if fp_inf u \<or> fp_inf v then
        (if fp_zero u \<or> fp_zero v then NotANumber else inf_of (signbit u \<noteq> signbit v))
      else if fp_zero u \<or> fp_zero v then zero_of (signbit u \<noteq> signbit v)
      else r (fp_val u * fp_val v))"

definition fp_div :: "(real \<Rightarrow> fp) \<Rightarrow> fp \<Rightarrow> fp \<Rightarrow> fp" where
  "fp_div r u v =
     (if fp_nan u \<or> fp_nan v then NotANumber
      else if fp_inf u then (if fp_inf v then NotANumber else inf_of (signbit u \<noteq> signbit v))
      else if fp_inf v then zero_of (signbit u \<noteq> signbit v)
      else if fp_zero v then (if fp_zero u then NotANumber else inf_of (signbit u \<noteq> signbit v))
      else if fp_zero u then zero_of (signbit u \<noteq> signbit v)
      else r (fp_val u / fp_val v))"

text \<open>
  Rounding to nearest, ties to even, to the format of precision \<open>p\<close> bits and exponents
  from \<open>emin\<close> to \<open>emax\<close>: \<open>expo x\<close> is the binary exponent of \<open>x\<close>, the spacing of the
  format at \<open>x\<close> is \<open>2\<close> to the \<open>max (expo x) emin - p + 1\<close> (the subnormal spacing below
  \<open>2\<close> to the \<open>emin\<close>), and \<open>x\<close> goes to the nearest multiple of the spacing, to the even
  one at a tie. A result of magnitude \<open>2\<close> to the \<open>emax + 1\<close> is an infinity, a result 0 is
  the zero of the sign of \<open>x\<close>.
\<close>

definition rne :: "real \<Rightarrow> int" where
  "rne q =
     (let f = \<lfloor>q\<rfloor>; d = q - of_int f
      in if d < 1 / 2 then f else if 1 / 2 < d then f + 1 else if even f then f else f + 1)"

definition expo :: "real \<Rightarrow> int" where
  "expo x = \<lfloor>log 2 \<bar>x\<bar>\<rfloor>"

definition round_to :: "nat \<Rightarrow> int \<Rightarrow> int \<Rightarrow> real \<Rightarrow> fp" where
  "round_to p emin emax x =
     (let e = max (expo x) emin;
          ulp = 2 powi (e - int p + 1);
          y = of_int (rne (x / ulp)) * ulp
      in if 2 powi (emax + 1) \<le> \<bar>y\<bar> then inf_of (x < 0)
         else if y = 0 then zero_of (x < 0)
         else Finite y)"

text \<open>binary32 has 24 bits of precision and exponents -126 to 127, binary64 53 bits
  and exponents -1022 to 1023.\<close>

definition binary32 :: "real \<Rightarrow> fp" where
  "binary32 = round_to 24 (- 126) 127"

definition binary64 :: "real \<Rightarrow> fp" where
  "binary64 = round_to 53 (- 1022) 1023"

text \<open>
  The logarithm of the library (\<^verbatim>\<open>std::log\<close> on a double, the float logarithm of the
  array expression): \<open>- \<infinity>\<close> at a zero, NaN at a negative value, \<open>+0\<close> at 1, and
  otherwise the value \<open>lg\<close> that the library computes, in the format. \<open>lg\<close> is a
  parameter: a library whose results are already in the format is not changed by the
  rounding, and with \<open>lg = ln\<close> the logarithm is the correctly rounded one.
\<close>

definition fp_log :: "(real \<Rightarrow> fp) \<Rightarrow> (real \<Rightarrow> real) \<Rightarrow> fp \<Rightarrow> fp" where
  "fp_log r lg u =
     (if fp_nan u then NotANumber
      else if fp_zero u then NegInf
      else if signbit u then NotANumber
      else if fp_inf u then PosInf
      else if fp_val u = 1 then Finite 0
      else r (lg (fp_val u)))"

text \<open>
  The conversion of a double to float rounds a nonzero finite value and keeps zeros,
  infinities and NaN; the conversion of a float to double is exact. A \<^verbatim>\<open>bool\<close>
  converts to 1 or 0. \<open>fp_le\<close> is the comparison \<^verbatim>\<open><=\<close>, false at a NaN.
\<close>

definition fp_cvt :: "(real \<Rightarrow> fp) \<Rightarrow> fp \<Rightarrow> fp" where
  "fp_cvt r u = (if fp_finite u \<and> \<not> fp_zero u then r (fp_val u) else u)"

definition fp_bool :: "bool \<Rightarrow> fp" where
  "fp_bool c = (if c then Finite 1 else Finite 0)"

definition fp_le :: "fp \<Rightarrow> fp \<Rightarrow> bool" where
  "fp_le u v =
     (\<not> fp_nan u \<and> \<not> fp_nan v \<and>
      (u = NegInf \<or> v = PosInf \<or> (fp_finite u \<and> fp_finite v \<and> fp_val u \<le> fp_val v)))"

text \<open>
  The arithmetic of the program: the float operations round to binary32, the double
  operations to binary64, the literal \<^verbatim>\<open>0.1\<close> is the double nearest to \<open>1 / 10\<close>. The
  logarithms \<open>lf\<close> and \<open>ld\<close> of the library stay parameters.
\<close>

definition rounded_arith ::
  "(real \<Rightarrow> fp) \<Rightarrow> (real \<Rightarrow> fp) \<Rightarrow> (real \<Rightarrow> real) \<Rightarrow> (real \<Rightarrow> real) \<Rightarrow> (fp, fp) arith" where
  "rounded_arith rf rd lf ld =
     \<lparr> fadd = fp_add rf, fsub = fp_sub rf, fmul = fp_mul rf, fdiv = fp_div rf, flog = fp_log rf lf,
       dadd = fp_add rd, dsub = fp_sub rd, dmul = fp_mul rd, ddiv = fp_div rd, dlog = fp_log rd ld,
       f2d = (\<lambda>v. v), d2f = fp_cvt rf, fbool = fp_bool, dbool = fp_bool,
       d_one = Finite 1, d_tenth = rd (1 / 10), f_zero = Finite 0 \<rparr>"

definition ieee_arith :: "(real \<Rightarrow> real) \<Rightarrow> (real \<Rightarrow> real) \<Rightarrow> (fp, fp) arith" where
  "ieee_arith lf ld = rounded_arith binary32 binary64 lf ld"

section \<open>The record and the single-record operations\<close>

text \<open>
  \<^verbatim>\<open>struct Particle\<close>: the members \<^verbatim>\<open>pid_\<close>, \<^verbatim>\<open>px_\<close>, ... \<^verbatim>\<open>t_\<close>, here
  \<open>pid_m\<close>, \<open>px_m\<close>, ... \<open>t_m\<close>. An accessor such as \<^verbatim>\<open>px()\<close> returns a reference to
  its member: reading it is the selector, assigning through it is the record update.
\<close>

type_synonym int32 = "32 word"

record 'f Particle =
  pid_m :: int32
  px_m :: 'f
  py_m :: 'f
  pz_m :: 'f
  e_m :: 'f
  x_m :: 'f
  y_m :: 'f
  z_m :: 'f
  t_m :: 'f

type_synonym 'f stack = "'f Particle list"

definition sqr_f :: "('f, 'd) arith \<Rightarrow> 'f \<Rightarrow> 'f" where
  "sqr_f A v = fmul A v v"

definition momentum_squared :: "('f, 'd) arith \<Rightarrow> 'f Particle \<Rightarrow> 'f" where
  "momentum_squared A part =
     fadd A (fadd A (sqr_f A (px_m part)) (sqr_f A (py_m part))) (sqr_f A (pz_m part))"

text \<open>\<^verbatim>\<open>charge\<close> at a single record: the \<^verbatim>\<open>bool\<close> \<^verbatim>\<open>part.pid() != 0\<close>.\<close>

definition charge :: "'f Particle \<Rightarrow> bool" where
  "charge part = (pid_m part \<noteq> 0)"

text \<open>\<^verbatim>\<open>beta_2\<close> of both single-record forms: a float.\<close>

definition beta_2 :: "('f, 'd) arith \<Rightarrow> 'f Particle \<Rightarrow> 'f" where
  "beta_2 A part = fdiv A (momentum_squared A part) (sqr_f A (e_m part))"

text \<open>
  The factor \<^verbatim>\<open>log(beta_2 / (1.0 - beta_2)) / beta_2 - 1.0\<close> at a float \<open>b\<close>: the
  literal is a double, so \<open>b\<close> is promoted and the factor is a double.
\<close>

definition loss_factor :: "('f, 'd) arith \<Rightarrow> 'f \<Rightarrow> 'd" where
  "loss_factor A b =
     dsub A (ddiv A (dlog A (ddiv A (f2d A b) (dsub A (d_one A) (f2d A b)))) (f2d A b))
       (d_one A)"

text \<open>
  The template \<^verbatim>\<open>energy_loss<T>\<close> at \<^verbatim>\<open>T = Particle\<close>: the factor is multiplied by
  the charge and subtracted from \<^verbatim>\<open>e\<close> in double precision, whatever the charge.
\<close>

definition energy_loss_T :: "('f, 'd) arith \<Rightarrow> 'f Particle \<Rightarrow> 'f Particle" where
  "energy_loss_T A part =
     (let b = beta_2 A part;
          energy_loss = dmul A (dbool A (charge part)) (loss_factor A b)
      in part\<lparr>e_m := d2f A (dsub A (f2d A (e_m part)) energy_loss)\<rparr>)"

text \<open>The overload \<^verbatim>\<open>energy_loss(Particle&)\<close>, which overload resolution picks for a record.\<close>

definition energy_loss :: "('f, 'd) arith \<Rightarrow> 'f Particle \<Rightarrow> 'f Particle" where
  "energy_loss A part =
     (let b = beta_2 A part;
          c = charge part
      in if c then
           (let energy_loss = dmul A (dbool A c) (loss_factor A b)
            in part\<lparr>e_m := d2f A (dsub A (f2d A (e_m part)) energy_loss)\<rparr>)
         else part)"

text \<open>
  The template \<^verbatim>\<open>move_particle<T>\<close> at \<^verbatim>\<open>T = Particle\<close>: \<^verbatim>\<open>dt\<close> is the double
  \<^verbatim>\<open>0.1\<close>, each sum is formed in double precision and converted back on assignment.
\<close>

definition move_particle :: "('f, 'd) arith \<Rightarrow> 'f Particle \<Rightarrow> 'f Particle" where
  "move_particle A p =
     (let dt = d_tenth A;
          p1 = p\<lparr>x_m := d2f A (dadd A (f2d A (x_m p)) (dmul A (f2d A (px_m p)) dt))\<rparr>;
          p2 = p1\<lparr>y_m := d2f A (dadd A (f2d A (y_m p1)) (dmul A (f2d A (py_m p1)) dt))\<rparr>;
          p3 = p2\<lparr>z_m := d2f A (dadd A (f2d A (z_m p2)) (dmul A (f2d A (pz_m p2)) dt))\<rparr>
      in p3\<lparr>t_m := d2f A (dadd A (f2d A (t_m p3)) dt)\<rparr>)"

section \<open>Populating the storage\<close>

text \<open>
  \<^verbatim>\<open>setup_stack\<close>: a vector of 100000 value-initialised records, then the loop
  \<^verbatim>\<open>part.pid() = (++i % 3 - 1)\<close> over them with \<^verbatim>\<open>int i = 0\<close>. The counter stays
  below \<open>2 ^ 31\<close>; \<^verbatim>\<open>%\<close> truncates towards zero (\<open>smod\<close>).
\<close>

definition zero_Particle :: "('f, 'd) arith \<Rightarrow> 'f Particle" where
  "zero_Particle A =
     \<lparr> pid_m = 0, px_m = f_zero A, py_m = f_zero A, pz_m = f_zero A, e_m = f_zero A,
       x_m = f_zero A, y_m = f_zero A, z_m = f_zero A, t_m = f_zero A \<rparr>"

fun assign_pids :: "int \<Rightarrow> 'f stack \<Rightarrow> 'f stack" where
  "assign_pids i [] = []"
| "assign_pids i (part # rest) =
     part\<lparr>pid_m := of_int ((i + 1) smod 3 - 1)\<rparr> # assign_pids (i + 1) rest"

definition setup_stack :: "('f, 'd) arith \<Rightarrow> 'f stack" where
  "setup_stack A = assign_pids 0 (replicate 100000 (zero_Particle A))"

section \<open>The batch accessor and its strided views\<close>

text \<open>
  A \<^verbatim>\<open>Particle*\<close> into the vector is the index of the record it points to. A
  \<^verbatim>\<open>ParticleSpan\<close> holds two of them. Reading or writing outside the vector is
  undefined behaviour in the program; here it is the result \<open>None\<close>.
\<close>

record ParticleSpan =
  begin_m :: nat
  end_m :: nat

text \<open>
  \<^verbatim>\<open>size()\<close> is \<^verbatim>\<open>end_ - begin_\<close>. The accessor's invariant is
  \<^verbatim>\<open>begin_ <= end_\<close>; the difference of a span that breaks it wraps in
  \<^verbatim>\<open>std::size_t\<close>, and the batch forms below return \<open>None\<close> on such a span before
  they use its size.
\<close>

definition span_size :: "ParticleSpan \<Rightarrow> nat" where
  "span_size s = end_m s - begin_m s"

definition valid_span :: "ParticleSpan \<Rightarrow> 'f stack \<Rightarrow> bool" where
  "valid_span s st = (begin_m s \<le> end_m s \<and> end_m s \<le> length st)"

text \<open>
  The float members and their offsets in the record, in units of \<^verbatim>\<open>sizeof(float)\<close>;
  \<^verbatim>\<open>pid_\<close> is at offset 0. \<open>stride\<close> is \<^verbatim>\<open>sizeof(Particle) / sizeof(float)\<close>, the
  \<^verbatim>\<open>InnerStride\<close> of every view.
\<close>

datatype field = Fpx | Fpy | Fpz | Fe | Fx | Fy | Fz | Ft

fun foffset :: "field \<Rightarrow> nat" where
  "foffset Fpx = 1"
| "foffset Fpy = 2"
| "foffset Fpz = 3"
| "foffset Fe = 4"
| "foffset Fx = 5"
| "foffset Fy = 6"
| "foffset Fz = 7"
| "foffset Ft = 8"

definition field_at :: "nat \<Rightarrow> field option" where
  "field_at k =
     (if k = 1 then Some Fpx else if k = 2 then Some Fpy else if k = 3 then Some Fpz
      else if k = 4 then Some Fe else if k = 5 then Some Fx else if k = 6 then Some Fy
      else if k = 7 then Some Fz else if k = 8 then Some Ft else None)"

text \<open>The per-record accessors \<^verbatim>\<open>px()\<close> ... \<^verbatim>\<open>t()\<close>, read and assigned.\<close>

fun fget :: "field \<Rightarrow> 'f Particle \<Rightarrow> 'f" where
  "fget Fpx p = px_m p"
| "fget Fpy p = py_m p"
| "fget Fpz p = pz_m p"
| "fget Fe p = e_m p"
| "fget Fx p = x_m p"
| "fget Fy p = y_m p"
| "fget Fz p = z_m p"
| "fget Ft p = t_m p"

fun fset :: "field \<Rightarrow> 'f \<Rightarrow> 'f Particle \<Rightarrow> 'f Particle" where
  "fset Fpx v p = p\<lparr>px_m := v\<rparr>"
| "fset Fpy v p = p\<lparr>py_m := v\<rparr>"
| "fset Fpz v p = p\<lparr>pz_m := v\<rparr>"
| "fset Fe v p = p\<lparr>e_m := v\<rparr>"
| "fset Fx v p = p\<lparr>x_m := v\<rparr>"
| "fset Fy v p = p\<lparr>y_m := v\<rparr>"
| "fset Fz v p = p\<lparr>z_m := v\<rparr>"
| "fset Ft v p = p\<lparr>t_m := v\<rparr>"

definition stride :: nat where
  "stride = 9"

text \<open>
  Loads and stores through a \<^verbatim>\<open>float*\<close> or an \<^verbatim>\<open>int32_t*\<close> into the vector's
  buffer. The address counts 4-byte cells from the start of the buffer: cell \<open>a\<close> is
  the member at offset \<open>a mod stride\<close> of record \<open>a div stride\<close>. An access of the
  wrong type or beyond the vector is \<open>None\<close>.
\<close>

definition fload :: "'f stack \<Rightarrow> nat \<Rightarrow> 'f option" where
  "fload st a =
     (case field_at (a mod stride) of
        None \<Rightarrow> None
      | Some k \<Rightarrow> if a div stride < length st then Some (fget k (st ! (a div stride))) else None)"

definition fstore :: "'f stack \<Rightarrow> nat \<Rightarrow> 'f \<Rightarrow> 'f stack option" where
  "fstore st a v =
     (case field_at (a mod stride) of
        None \<Rightarrow> None
      | Some k \<Rightarrow>
          if a div stride < length st
          then Some (st[a div stride := fset k v (st ! (a div stride))]) else None)"

definition iload :: "'f stack \<Rightarrow> nat \<Rightarrow> int32 option" where
  "iload st a =
     (if a mod stride = 0 \<and> a div stride < length st
      then Some (pid_m (st ! (a div stride))) else None)"

definition istore :: "'f stack \<Rightarrow> nat \<Rightarrow> int32 \<Rightarrow> 'f stack option" where
  "istore st a v =
     (if a mod stride = 0 \<and> a div stride < length st
      then Some (st[a div stride := (st ! (a div stride))\<lparr>pid_m := v\<rparr>]) else None)"

text \<open>
  Modelled from the spec: \<^verbatim>\<open>Eigen::Map\<close> with an inner stride is not under src/. As
  the spec's Strided View, a view is the address of the first record's member and a
  length; element \<open>i\<close> is the cell \<open>stride * i\<close> further, read and written in place.
\<close>

record ArrayView =
  vptr :: nat
  vlen :: nat

text \<open>
  Modelled from the spec: the element access of \<^verbatim>\<open>Eigen::Map\<close> is not under src/.
  Per-element read and write of a Strided View go through the stride directly against
  the record storage; the view trusts its address and length, so the index is not
  checked against \<open>vlen\<close>. \<open>coeff\<close> and \<open>set_coeff\<close> are the float view's read and
  write, \<open>icoeff\<close> and \<open>set_icoeff\<close> those of the view of \<^verbatim>\<open>pid_\<close>.
\<close>

definition coeff :: "ArrayView \<Rightarrow> nat \<Rightarrow> 'f stack \<Rightarrow> 'f option" where
  "coeff v i st = fload st (vptr v + stride * i)"

definition set_coeff :: "ArrayView \<Rightarrow> nat \<Rightarrow> 'f \<Rightarrow> 'f stack \<Rightarrow> 'f stack option" where
  "set_coeff v i c st = fstore st (vptr v + stride * i) c"

definition icoeff :: "ArrayView \<Rightarrow> nat \<Rightarrow> 'f stack \<Rightarrow> int32 option" where
  "icoeff v i st = iload st (vptr v + stride * i)"

definition set_icoeff :: "ArrayView \<Rightarrow> nat \<Rightarrow> int32 \<Rightarrow> 'f stack \<Rightarrow> 'f stack option" where
  "set_icoeff v i c st = istore st (vptr v + stride * i) c"

text \<open>
  The accessors of \<^verbatim>\<open>ParticleSpan\<close>: \<^verbatim>\<open>pid()\<close> is
  \<^verbatim>\<open>ArrayIView(&begin_->pid_, size())\<close>, and \<^verbatim>\<open>px()\<close> ... \<^verbatim>\<open>t()\<close> are
  \<^verbatim>\<open>ArrayFView(&begin_->px_, size())\<close> and so on, one per float member.
\<close>

definition span_pid :: "ParticleSpan \<Rightarrow> ArrayView" where
  "span_pid s = \<lparr> vptr = stride * begin_m s, vlen = span_size s \<rparr>"

definition span_f :: "field \<Rightarrow> ParticleSpan \<Rightarrow> ArrayView" where
  "span_f k s = \<lparr> vptr = stride * begin_m s + foffset k, vlen = span_size s \<rparr>"

text \<open>
  The iteration \<^verbatim>\<open>for (auto&& p : span) f(p)\<close>: the pointer runs from
  \<^verbatim>\<open>begin()\<close> while it differs from \<^verbatim>\<open>end()\<close>, and \<open>f\<close> updates the record it
  points to in place.
\<close>

function for_each :: "('f Particle \<Rightarrow> 'f Particle) \<Rightarrow> nat \<Rightarrow> nat \<Rightarrow> 'f stack \<Rightarrow> 'f stack option"
where
  "for_each f it e st =
     (if it = e then Some st
      else if it < length st then for_each f (Suc it) e (st[it := f (st ! it)])
      else None)"
  by pat_completeness auto
termination
  by (relation "measure (\<lambda>(f, it, e, st). length st - it)") auto

text \<open>
  Modelled from the spec: Eigen's coefficient-wise assignment is not under src/. As the
  spec's elementwise arithmetic without a copy, \<^verbatim>\<open>dst += src\<close> and
  \<^verbatim>\<open>dst -= src\<close> run over the elements of \<open>dst\<close> in order; at element \<open>i\<close> the
  coefficient of the unevaluated expression \<open>src\<close> is computed from the storage as it
  is then, and the result is written through \<open>dst\<close>.
\<close>

function assign_loop ::
  "('f stack \<Rightarrow> nat \<Rightarrow> 'f stack option) \<Rightarrow> nat \<Rightarrow> nat \<Rightarrow> 'f stack \<Rightarrow> 'f stack option"
where
  "assign_loop body i n st =
     (if i < n then
        (case body st i of None \<Rightarrow> None | Some st' \<Rightarrow> assign_loop body (Suc i) n st')
      else Some st)"
  by pat_completeness auto
termination
  by (relation "measure (\<lambda>(body, i, n, st). n - i)") auto

text \<open>
  Modelled from the spec: \<^verbatim>\<open>operator+=\<close> and \<^verbatim>\<open>operator-=\<close> of an Eigen array
  are not under src/. Each is the loop above over the \<open>vlen\<close> elements of \<open>dst\<close>, adding
  to or subtracting from the element the coefficient of \<open>src\<close> in float arithmetic.
\<close>

definition add_assign ::
  "('f, 'd) arith \<Rightarrow> ArrayView \<Rightarrow> ('f stack \<Rightarrow> nat \<Rightarrow> 'f option) \<Rightarrow> 'f stack \<Rightarrow> 'f stack option"
where
  "add_assign A dst src st =
     assign_loop
       (\<lambda>s i. do { v \<leftarrow> src s i; old \<leftarrow> coeff dst i s; set_coeff dst i (fadd A old v) s })
       0 (vlen dst) st"

definition sub_assign ::
  "('f, 'd) arith \<Rightarrow> ArrayView \<Rightarrow> ('f stack \<Rightarrow> nat \<Rightarrow> 'f option) \<Rightarrow> 'f stack \<Rightarrow> 'f stack option"
where
  "sub_assign A dst src st =
     assign_loop
       (\<lambda>s i. do { v \<leftarrow> src s i; old \<leftarrow> coeff dst i s; set_coeff dst i (fsub A old v) s })
       0 (vlen dst) st"

section \<open>The batch operations\<close>

text \<open>
  The template \<^verbatim>\<open>energy_loss<T>\<close> at \<^verbatim>\<open>T = ParticleSpan\<close>. \<^verbatim>\<open>beta_2\<close> and
  \<^verbatim>\<open>energy_loss\<close> are unevaluated array expressions over float; the double literals
  are converted to the arrays' scalar type, and \<^verbatim>\<open>charge\<close> is the mask
  \<^verbatim>\<open>(part.pid() != 0).cast<float>()\<close>. \<open>energy_loss_coeff\<close> is element \<open>i\<close> of the
  expression \<^verbatim>\<open>charge(part) * (log(beta_2 / (1.0 - beta_2)) / beta_2 - 1.0)\<close>, and
  \<^verbatim>\<open>part.e() -= energy_loss\<close> evaluates it element by element. The first branch is
  the span with \<^verbatim>\<open>end_\<close> before \<^verbatim>\<open>begin_\<close>, whose \<^verbatim>\<open>size()\<close> wraps: the views
  built from it are outside the contract of the library.
\<close>

definition energy_loss_coeff ::
  "('f, 'd) arith \<Rightarrow> ParticleSpan \<Rightarrow> 'f stack \<Rightarrow> nat \<Rightarrow> 'f option"
where
  "energy_loss_coeff A part st i =
     do {
       px \<leftarrow> coeff (span_f Fpx part) i st;
       py \<leftarrow> coeff (span_f Fpy part) i st;
       pz \<leftarrow> coeff (span_f Fpz part) i st;
       e \<leftarrow> coeff (span_f Fe part) i st;
       pid \<leftarrow> icoeff (span_pid part) i st;
       let b = fdiv A (fadd A (fadd A (sqr_f A px) (sqr_f A py)) (sqr_f A pz)) (sqr_f A e);
       Some (fmul A (fbool A (pid \<noteq> 0))
               (fsub A (fdiv A (flog A (fdiv A b (fsub A (d2f A (d_one A)) b))) b)
                  (d2f A (d_one A))))
     }"

definition energy_loss_Span :: "('f, 'd) arith \<Rightarrow> ParticleSpan \<Rightarrow> 'f stack \<Rightarrow> 'f stack option"
where
  "energy_loss_Span A part st =
     (if end_m part < begin_m part then None
      else sub_assign A (span_f Fe part) (energy_loss_coeff A part) st)"

text \<open>
  The template \<^verbatim>\<open>move_particle<T>\<close> at \<^verbatim>\<open>T = ParticleSpan\<close>: four assignments,
  each a loop over the whole span, with \<^verbatim>\<open>dt\<close> converted to float. The first
  branch is as in \<open>energy_loss_Span\<close>.
\<close>

definition move_particle_Span :: "('f, 'd) arith \<Rightarrow> ParticleSpan \<Rightarrow> 'f stack \<Rightarrow> 'f stack option"
where
  "move_particle_Span A p st =
     (if end_m p < begin_m p then None
      else
        (let dt = d2f A (d_tenth A) in
         do {
           st1 \<leftarrow> add_assign A (span_f Fx p)
                    (\<lambda>s i. do { v \<leftarrow> coeff (span_f Fpx p) i s; Some (fmul A v dt) }) st;
           st2 \<leftarrow> add_assign A (span_f Fy p)
                    (\<lambda>s i. do { v \<leftarrow> coeff (span_f Fpy p) i s; Some (fmul A v dt) }) st1;
           st3 \<leftarrow> add_assign A (span_f Fz p)
                    (\<lambda>s i. do { v \<leftarrow> coeff (span_f Fpz p) i s; Some (fmul A v dt) }) st2;
           add_assign A (span_f Ft p) (\<lambda>s i. Some dt) st3
         }))"

section \<open>The operation list\<close>

text \<open>
  \<^verbatim>\<open>ProcessVariant\<close> is the variant over the four functors. \<open>visit_process\<close> is
  \<^verbatim>\<open>visit([&span](auto& proc) { proc(span); }, process)\<close>: the functor is called on
  the span, which it receives by reference together with the storage behind it.
  \<open>run_process_list\<close> is the loop over a \<^verbatim>\<open>ProcessList\<close> in the body of
  \<^verbatim>\<open>variant_process_span\<close>.
\<close>

datatype ProcessVariant =
  ContinuousEnergyLoss | ContinuousEnergyLossNoEigen | MoveParticle | MoveParticleNoEigen

fun visit_process ::
  "('f, 'd) arith \<Rightarrow> ProcessVariant \<Rightarrow> ParticleSpan \<times> 'f stack \<Rightarrow> (ParticleSpan \<times> 'f stack) option"
where
  "visit_process A ContinuousEnergyLoss (sp, st) =
     map_option (Pair sp) (energy_loss_Span A sp st)"
| "visit_process A ContinuousEnergyLossNoEigen (sp, st) =
     map_option (Pair sp) (for_each (energy_loss A) (begin_m sp) (end_m sp) st)"
| "visit_process A MoveParticle (sp, st) =
     map_option (Pair sp) (move_particle_Span A sp st)"
| "visit_process A MoveParticleNoEigen (sp, st) =
     map_option (Pair sp) (for_each (move_particle A) (begin_m sp) (end_m sp) st)"

fun run_process_list ::
  "('f, 'd) arith \<Rightarrow> ProcessVariant list \<Rightarrow> ParticleSpan \<times> 'f stack \<Rightarrow> (ParticleSpan \<times> 'f stack) option"
where
  "run_process_list A [] s = Some s"
| "run_process_list A (process # rest) s =
     (case visit_process A process s of
        None \<Rightarrow> None
      | Some s' \<Rightarrow> run_process_list A rest s')"

section \<open>What one record sees of a batch operation\<close>

text \<open>
  These two functions are what the batch forms do to one record of the span, in single
  precision; \<open>energy_loss_Span_map_range\<close> and \<open>move_particle_Span_map_range\<close> below
  prove it from the loops over the strided views.
\<close>

definition energy_loss_elem :: "('f, 'd) arith \<Rightarrow> 'f Particle \<Rightarrow> 'f Particle" where
  "energy_loss_elem A p =
     (let b = beta_2 A p;
          one_f = d2f A (d_one A)
      in p\<lparr>e_m := fsub A (e_m p)
            (fmul A (fbool A (charge p))
               (fsub A (fdiv A (flog A (fdiv A b (fsub A one_f b))) b) one_f))\<rparr>)"

definition move_elem :: "('f, 'd) arith \<Rightarrow> 'f Particle \<Rightarrow> 'f Particle" where
  "move_elem A p =
     (let dt = d2f A (d_tenth A)
      in p\<lparr>x_m := fadd A (x_m p) (fmul A (px_m p) dt),
           y_m := fadd A (y_m p) (fmul A (py_m p) dt),
           z_m := fadd A (z_m p) (fmul A (pz_m p) dt),
           t_m := fadd A (t_m p) dt\<rparr>)"

text \<open>The record function of each functor of the variant.\<close>

fun proc_elem :: "('f, 'd) arith \<Rightarrow> ProcessVariant \<Rightarrow> 'f Particle \<Rightarrow> 'f Particle" where
  "proc_elem A ContinuousEnergyLoss = energy_loss_elem A"
| "proc_elem A ContinuousEnergyLossNoEigen = energy_loss A"
| "proc_elem A MoveParticle = move_elem A"
| "proc_elem A MoveParticleNoEigen = move_particle A"

text \<open>\<open>map_range f b e st\<close> applies \<open>f\<close> to the records at the indices from \<open>b\<close> up to \<open>e\<close>.\<close>

definition map_range :: "('a \<Rightarrow> 'a) \<Rightarrow> nat \<Rightarrow> nat \<Rightarrow> 'a list \<Rightarrow> 'a list" where
  "map_range f b e st = map (\<lambda>j. if b \<le> j \<and> j < e then f (st ! j) else st ! j) [0..<length st]"

section \<open>The statements of the specification\<close>

text \<open>
  The delta of the specification, in its words: the charge times
  \<open>ln(\<beta>\<^sup>2 / (1 - \<beta>\<^sup>2)) / \<beta>\<^sup>2 - 1\<close> with \<open>\<beta>\<^sup>2 = (px\<^sup>2 + py\<^sup>2 + pz\<^sup>2) / e\<^sup>2\<close>, the charge
  being 1 unless the identity tag is the neutral sentinel 0.
\<close>

definition spec_energy_delta :: "('f, 'd) arith \<Rightarrow> 'f Particle \<Rightarrow> 'd" where
  "spec_energy_delta A p =
     (let b2 = f2d A (fdiv A
                 (fadd A (fadd A (fmul A (px_m p) (px_m p)) (fmul A (py_m p) (py_m p)))
                    (fmul A (pz_m p) (pz_m p)))
                 (fmul A (e_m p) (e_m p)))
      in dmul A (dbool A (pid_m p \<noteq> 0))
           (dsub A (ddiv A (dlog A (ddiv A b2 (dsub A (d_one A) b2))) b2) (d_one A)))"








text \<open>
  Properties used in the proofs: a rounding that keeps the sign of a nonzero real and
  gives no NaN; a value whose logarithm is not finite; a finite value of magnitude at
  most \<open>K\<close>.
\<close>

definition sign_keeping :: "(real \<Rightarrow> fp) \<Rightarrow> bool" where
  "sign_keeping r = (\<forall>x. x \<noteq> 0 \<longrightarrow> \<not> fp_nan (r x) \<and> signbit (r x) = (x < 0))"

definition not_pos :: "fp \<Rightarrow> bool" where
  "not_pos u = (fp_nan u \<or> fp_inf u \<or> fp_zero u \<or> signbit u)"


text \<open>Records with finite members, for concrete evaluation.\<close>

definition mk_Particle :: "int \<Rightarrow> real \<Rightarrow> real \<Rightarrow> real \<Rightarrow> real \<Rightarrow> fl Particle" where
  "mk_Particle i a b c d =
     \<lparr> pid_m = of_int i, px_m = Fin a, py_m = Fin b, pz_m = Fin c, e_m = Fin d,
       x_m = Fin 0, y_m = Fin 0, z_m = Fin 0, t_m = Fin 0 \<rparr>"

text \<open>A storage of three records and a span over the first two.\<close>

definition demo_span :: ParticleSpan where
  "demo_span = \<lparr> begin_m = 0, end_m = 2 \<rparr>"

definition demo_stack :: "fl stack" where
  "demo_stack = [mk_Particle 0 2 0 0 1, mk_Particle 1 1 1 0 2, mk_Particle (- 1) 3 4 0 10]"

text \<open>
  Records of the program's arithmetic, with identity tag \<open>i\<close>, momentum \<open>(a, 0, 0)\<close>,
  energy \<open>d\<close> and position \<open>(c, 0, 0)\<close>, all of them float values in the records below:

  \<^item> \<open>cancel_Particle\<close>: \<open>x\<close> is the float nearest to 0.3 and \<open>px = -3\<close>, so that the
    step \<open>px * dt\<close> cancels \<open>x\<close>;
  \<^item> \<open>slow_Particle\<close>: neutral, \<open>px = 2\<^sup>-\<^sup>6\<^sup>2\<close> and \<open>e = 1\<close>, so that \<open>\<beta>\<^sup>2 = 2\<^sup>-\<^sup>1\<^sup>2\<^sup>4\<close> is in the
    domain and small;
  \<^item> \<open>tiny_Particle\<close>: charged, \<open>px = 2\<^sup>-\<^sup>1\<^sup>0\<^sup>0\<close> and \<open>e = 1\<close>, so that \<open>px\<^sup>2\<close> underflows;
  \<^item> \<open>steady_Particle\<close>: neutral, momentum \<open>(1, 1, 1)\<close>, energy 2 and position
    \<open>(1, 1, 1)\<close> at time 0, so that \<open>\<beta>\<^sup>2 = 3 / 4\<close> and no step cancels.
\<close>

definition mk_fp_Particle :: "int \<Rightarrow> real \<Rightarrow> real \<Rightarrow> real \<Rightarrow> fp Particle" where
  "mk_fp_Particle i a d c =
     \<lparr> pid_m = of_int i, px_m = Finite a, py_m = Finite 0, pz_m = Finite 0, e_m = Finite d,
       x_m = Finite c, y_m = Finite 0, z_m = Finite 0, t_m = Finite 0 \<rparr>"



definition tiny_Particle :: "fp Particle" where
  "tiny_Particle = mk_fp_Particle 1 (1 / 2 ^ 100) 1 0"


text \<open>The span of all records of a storage of one record.\<close>

definition unit_span :: ParticleSpan where
  "unit_span = \<lparr> begin_m = 0, end_m = 1 \<rparr>"

section \<open>Loops as maps over the range\<close>

declare for_each.simps [simp del] assign_loop.simps [simp del]

lemma length_map_range [simp]: "length (map_range f b e st) = length st"
  by (simp add: map_range_def)

lemma nth_map_range:
  "j < length st \<Longrightarrow> map_range f b e st ! j = (if b \<le> j \<and> j < e then f (st ! j) else st ! j)"
  by (simp add: map_range_def)

lemma map_range_empty [simp]: "map_range f b b st = st"
  by (rule nth_equalityI) (auto simp: nth_map_range)

lemma map_range_step:
  "it < e \<Longrightarrow> it < length st \<Longrightarrow>
   map_range f (Suc it) e (st[it := f (st ! it)]) = map_range f it e st"
  by (rule nth_equalityI) (auto simp: nth_map_range nth_list_update)

lemma map_range_comp:
  "map_range g b e (map_range f b e st) = map_range (\<lambda>p. g (f p)) b e st"
  by (rule nth_equalityI) (auto simp: nth_map_range)

lemma valid_span_map_range [simp]: "valid_span sp (map_range f b e st) = valid_span sp st"
  by (simp add: valid_span_def)

text \<open>The iteration over a span within the storage updates exactly its records.\<close>

lemma for_each_map_range:
  "it \<le> e \<Longrightarrow> e \<le> length st \<Longrightarrow> for_each f it e st = Some (map_range f it e st)"
proof (induction f it e st rule: for_each.induct)
  case (1 f it e st)
  show ?case
  proof (cases "it = e")
    case True
    then show ?thesis by (simp add: for_each.simps [of f e e st])
  next
    case False
    with "1.prems" have lt: "it < e" "it < length st" by simp_all
    have "for_each f it e st = for_each f (Suc it) e (st[it := f (st ! it)])"
      using False lt by (simp add: for_each.simps [of f it e st])
    also have "\<dots> = Some (map_range f (Suc it) e (st[it := f (st ! it)]))"
      using "1.IH" [OF False lt(2)] lt "1.prems" by simp
    finally show ?thesis using lt by (simp add: map_range_step)
  qed
qed

text \<open>Element \<open>i\<close> of a view of a span is the member of the record at \<open>begin_ + i\<close>.\<close>

lemma field_at_foffset [simp]: "field_at (foffset k) = Some k"
  by (cases k) (simp_all add: field_at_def)

lemma foffset_less: "foffset k < stride"
  by (cases k) (simp_all add: stride_def)

lemma addr_div: "(stride * b + foffset k + stride * i) div stride = b + i"
  using foffset_less [of k] by (simp add: stride_def)

lemma addr_mod: "(stride * b + foffset k + stride * i) mod stride = foffset k"
  using foffset_less [of k] by (simp add: stride_def)

lemma coeff_span_f:
  "coeff (span_f k sp) i st =
     (if begin_m sp + i < length st then Some (fget k (st ! (begin_m sp + i))) else None)"
  unfolding coeff_def span_f_def fload_def
  by (simp only: ArrayView.simps addr_div addr_mod field_at_foffset option.case)

lemma set_coeff_span_f:
  "set_coeff (span_f k sp) i v st =
     (if begin_m sp + i < length st
      then Some (st[begin_m sp + i := fset k v (st ! (begin_m sp + i))]) else None)"
  unfolding set_coeff_def span_f_def fstore_def
  by (simp only: ArrayView.simps addr_div addr_mod field_at_foffset option.case)

lemma icoeff_span_pid:
  "icoeff (span_pid sp) i st =
     (if begin_m sp + i < length st then Some (pid_m (st ! (begin_m sp + i))) else None)"
  by (simp add: icoeff_def span_pid_def iload_def stride_def)

lemma set_icoeff_span_pid:
  "set_icoeff (span_pid sp) i v st =
     (if begin_m sp + i < length st
      then Some (st[begin_m sp + i := (st ! (begin_m sp + i))\<lparr>pid_m := v\<rparr>]) else None)"
  by (simp add: set_icoeff_def span_pid_def istore_def stride_def)

text \<open>
  A coefficient-wise loop whose step rewrites the record at \<open>b + j\<close> alone updates the
  records from \<open>b + i\<close> up to \<open>b + n\<close>.
\<close>

lemma assign_loop_map_range:
  "i \<le> n \<Longrightarrow> b + n \<le> length s \<Longrightarrow>
   (\<And>s' j. length s' = length s \<Longrightarrow> b + j < length s' \<Longrightarrow>
             body s' j = Some (s'[b + j := g (s' ! (b + j))])) \<Longrightarrow>
   assign_loop body i n s = Some (map_range g (b + i) (b + n) s)"
proof (induction body i n s rule: assign_loop.induct)
  case (1 body i n s)
  show ?case
  proof (cases "i < n")
    case False
    with "1.prems" have "i = n" by simp
    then show ?thesis by (simp add: assign_loop.simps [of body n n s])
  next
    case True
    with "1.prems" have lt: "b + i < length s" by simp
    have bs: "body s i = Some (s[b + i := g (s ! (b + i))])"
      using "1.prems"(3) lt by simp
    have "assign_loop body i n s = assign_loop body (Suc i) n (s[b + i := g (s ! (b + i))])"
      using True bs by (simp add: assign_loop.simps [of body i n s])
    also have "\<dots> = Some (map_range g (b + Suc i) (b + n) (s[b + i := g (s ! (b + i))]))"
      using "1.IH" [OF True bs] True "1.prems" by simp
    also have "map_range g (b + Suc i) (b + n) (s[b + i := g (s ! (b + i))])
               = map_range g (b + i) (b + n) s"
      using map_range_step [of "b + i" "b + n" s g] True lt by simp
    finally show ?thesis .
  qed
qed

lemma sub_assign_span_f:
  fixes st :: "'f stack" and A :: "('f, 'd) arith"
  assumes v: "valid_span sp st"
    and src: "\<And>s j. length s = length st \<Longrightarrow> begin_m sp + j < length s \<Longrightarrow>
                src s j = Some (h (s ! (begin_m sp + j)))"
  shows "sub_assign A (span_f k sp) src st =
           Some (map_range (\<lambda>p. fset k (fsub A (fget k p) (h p)) p) (begin_m sp) (end_m sp) st)"
proof -
  have "assign_loop
          (\<lambda>s i. do { v \<leftarrow> src s i; old \<leftarrow> coeff (span_f k sp) i s;
                      set_coeff (span_f k sp) i (fsub A old v) s })
          0 (span_size sp) st
        = Some (map_range (\<lambda>p. fset k (fsub A (fget k p) (h p)) p)
                  (begin_m sp + 0) (begin_m sp + span_size sp) st)"
  proof (rule assign_loop_map_range)
    show "0 \<le> span_size sp" by simp
    show "begin_m sp + span_size sp \<le> length st"
      using v by (simp add: valid_span_def span_size_def)
  next
    fix s' :: "'f stack" and j
    assume "length s' = length st" "begin_m sp + j < length s'"
    then show "do { v \<leftarrow> src s' j; old \<leftarrow> coeff (span_f k sp) j s';
                    set_coeff (span_f k sp) j (fsub A old v) s' }
               = Some (s'[begin_m sp + j :=
                   fset k (fsub A (fget k (s' ! (begin_m sp + j))) (h (s' ! (begin_m sp + j))))
                     (s' ! (begin_m sp + j))])"
      by (simp add: src coeff_span_f set_coeff_span_f)
  qed
  moreover have "begin_m sp + span_size sp = end_m sp"
    using v by (simp add: valid_span_def span_size_def)
  ultimately show ?thesis
    by (simp add: sub_assign_def span_f_def)
qed

lemma add_assign_span_f:
  fixes st :: "'f stack" and A :: "('f, 'd) arith"
  assumes v: "valid_span sp st"
    and src: "\<And>s j. length s = length st \<Longrightarrow> begin_m sp + j < length s \<Longrightarrow>
                src s j = Some (h (s ! (begin_m sp + j)))"
  shows "add_assign A (span_f k sp) src st =
           Some (map_range (\<lambda>p. fset k (fadd A (fget k p) (h p)) p) (begin_m sp) (end_m sp) st)"
proof -
  have "assign_loop
          (\<lambda>s i. do { v \<leftarrow> src s i; old \<leftarrow> coeff (span_f k sp) i s;
                      set_coeff (span_f k sp) i (fadd A old v) s })
          0 (span_size sp) st
        = Some (map_range (\<lambda>p. fset k (fadd A (fget k p) (h p)) p)
                  (begin_m sp + 0) (begin_m sp + span_size sp) st)"
  proof (rule assign_loop_map_range)
    show "0 \<le> span_size sp" by simp
    show "begin_m sp + span_size sp \<le> length st"
      using v by (simp add: valid_span_def span_size_def)
  next
    fix s' :: "'f stack" and j
    assume "length s' = length st" "begin_m sp + j < length s'"
    then show "do { v \<leftarrow> src s' j; old \<leftarrow> coeff (span_f k sp) j s';
                    set_coeff (span_f k sp) j (fadd A old v) s' }
               = Some (s'[begin_m sp + j :=
                   fset k (fadd A (fget k (s' ! (begin_m sp + j))) (h (s' ! (begin_m sp + j))))
                     (s' ! (begin_m sp + j))])"
      by (simp add: src coeff_span_f set_coeff_span_f)
  qed
  moreover have "begin_m sp + span_size sp = end_m sp"
    using v by (simp add: valid_span_def span_size_def)
  ultimately show ?thesis
    by (simp add: add_assign_def span_f_def)
qed

text \<open>The batch forms on a span within the storage, record by record.\<close>

lemma energy_loss_Span_map_range:
  assumes v: "valid_span sp st"
  shows "energy_loss_Span A sp st =
           Some (map_range (energy_loss_elem A) (begin_m sp) (end_m sp) st)"
proof -
  let ?h = "\<lambda>p. fmul A (fbool A (charge p))
               (fsub A (fdiv A (flog A (fdiv A (beta_2 A p) (fsub A (d2f A (d_one A)) (beta_2 A p))))
                   (beta_2 A p)) (d2f A (d_one A)))"
  have src: "energy_loss_coeff A sp s j = Some (?h (s ! (begin_m sp + j)))"
    if "begin_m sp + j < length s" for s :: "'a stack" and j
    using that
    by (simp add: energy_loss_coeff_def coeff_span_f icoeff_span_pid beta_2_def
        momentum_squared_def charge_def Let_def)
  have "sub_assign A (span_f Fe sp) (energy_loss_coeff A sp) st =
          Some (map_range (\<lambda>p. fset Fe (fsub A (fget Fe p) (?h p)) p) (begin_m sp) (end_m sp) st)"
    by (rule sub_assign_span_f [OF v]) (simp add: src)
  moreover have "(\<lambda>p. fset Fe (fsub A (fget Fe p) (?h p)) p) = energy_loss_elem A"
    by (rule ext) (simp add: energy_loss_elem_def Let_def)
  ultimately show ?thesis
    using v by (simp add: energy_loss_Span_def valid_span_def)
qed

lemma move_particle_Span_map_range:
  assumes v: "valid_span sp st"
  shows "move_particle_Span A sp st =
           Some (map_range (move_elem A) (begin_m sp) (end_m sp) st)"
proof -
  define dt where "dt = d2f A (d_tenth A)"
  define gx where "gx = (\<lambda>p::'a Particle. fset Fx (fadd A (fget Fx p) (fmul A (px_m p) dt)) p)"
  define gy where "gy = (\<lambda>p::'a Particle. fset Fy (fadd A (fget Fy p) (fmul A (py_m p) dt)) p)"
  define gz where "gz = (\<lambda>p::'a Particle. fset Fz (fadd A (fget Fz p) (fmul A (pz_m p) dt)) p)"
  define gt where "gt = (\<lambda>p::'a Particle. fset Ft (fadd A (fget Ft p) dt) p)"
  let ?b = "begin_m sp" and ?e = "end_m sp"
  have 1: "add_assign A (span_f Fx sp)
             (\<lambda>s i. do { v \<leftarrow> coeff (span_f Fpx sp) i s; Some (fmul A v dt) }) s
           = Some (map_range gx ?b ?e s)" if "valid_span sp s" for s :: "'a stack"
    unfolding gx_def by (rule add_assign_span_f [OF that]) (simp add: coeff_span_f)
  have 2: "add_assign A (span_f Fy sp)
             (\<lambda>s i. do { v \<leftarrow> coeff (span_f Fpy sp) i s; Some (fmul A v dt) }) s
           = Some (map_range gy ?b ?e s)" if "valid_span sp s" for s :: "'a stack"
    unfolding gy_def by (rule add_assign_span_f [OF that]) (simp add: coeff_span_f)
  have 3: "add_assign A (span_f Fz sp)
             (\<lambda>s i. do { v \<leftarrow> coeff (span_f Fpz sp) i s; Some (fmul A v dt) }) s
           = Some (map_range gz ?b ?e s)" if "valid_span sp s" for s :: "'a stack"
    unfolding gz_def by (rule add_assign_span_f [OF that]) (simp add: coeff_span_f)
  have 4: "add_assign A (span_f Ft sp) (\<lambda>s i. Some dt) s
           = Some (map_range gt ?b ?e s)" if "valid_span sp s" for s :: "'a stack"
    unfolding gt_def by (rule add_assign_span_f [OF that]) simp
  have comp: "(\<lambda>p. gt (gz (gy (gx p)))) = move_elem A"
    by (rule ext) (simp add: gx_def gy_def gz_def gt_def move_elem_def dt_def Let_def)
  have "move_particle_Span A sp st = Some (map_range gt ?b ?e (map_range gz ?b ?e
          (map_range gy ?b ?e (map_range gx ?b ?e st))))"
    using v by (simp add: move_particle_Span_def valid_span_def [of sp st] Let_def
        dt_def [symmetric] 1 2 3 4)
  then show ?thesis
    by (simp add: map_range_comp comp)
qed

section \<open>Population of the storage\<close>

lemma length_assign_pids [simp]: "length (assign_pids i ps) = length ps"
  by (induction ps arbitrary: i) simp_all

lemma nth_assign_pids:
  "k < length ps \<Longrightarrow>
   assign_pids i ps ! k = (ps ! k)\<lparr>pid_m := of_int ((i + int k + 1) smod 3 - 1)\<rparr>"
proof (induction ps arbitrary: i k)
  case Nil
  then show ?case by simp
next
  case (Cons p ps)
  show ?case
  proof (cases k)
    case 0
    then show ?thesis by simp
  next
    case (Suc k')
    with Cons.prems have "k' < length ps" by simp
    from Cons.IH [OF this, of "i + 1"] Suc show ?thesis
      by (simp add: add.commute add.left_commute)
  qed
qed

lemma smod_3_nonneg: "0 \<le> (n::int) \<Longrightarrow> n smod 3 = n mod 3"
  by (simp add: signed_modulo_int_def sgn_if)

lemma pid_setup_stack:
  "k < 100000 \<Longrightarrow> pid_m (setup_stack A ! k) = of_int ((int k + 1) mod 3 - 1)"
  by (simp add: setup_stack_def nth_assign_pids smod_3_nonneg)

text \<open>
  C7 (as amended). The population rule of \<open>setup_stack\<close> is \<^verbatim>\<open>++i % 3 - 1\<close> with
  the counter incremented first: the tags cycle 0, 1, -1 (not 0, 1, 2). The records at
  the indices divisible by 3 have tag 0, and every other record has a nonzero tag.
\<close>

theorem setup_stack_tags:
  "k < 100000 \<Longrightarrow>
   pid_m (setup_stack A ! k) =
     (if k mod 3 = 0 then 0 else if k mod 3 = 1 then 1 else - 1) \<and>
   (pid_m (setup_stack A ! k) = 0 \<longleftrightarrow> k mod 3 = 0)"
proof -
  assume k: "k < 100000"
  have m: "(int k + 1) mod 3 = (if k mod 3 = 0 then 1 else if k mod 3 = 1 then 2 else 0)"
    by presburger
  show ?thesis
    using k by (simp add: pid_setup_stack m)
qed

theorem setup_stack_tags_witness:
  "(4::nat) < 100000 \<and> pid_m (setup_stack exact_arith ! 4) = 1 \<and>
   pid_m (setup_stack exact_arith ! 3) = 0 \<and> length (setup_stack exact_arith) = 100000"
  using setup_stack_tags [of 4 exact_arith] setup_stack_tags [of 3 exact_arith]
  by (simp add: setup_stack_def)

text \<open>The record at index 2 has tag -1, not 2.\<close>

theorem setup_stack_tags_counterexample:
  "pid_m (setup_stack exact_arith ! 2) = - 1 \<and> pid_m (setup_stack exact_arith ! 2) \<noteq> 2"
  by (simp add: pid_setup_stack)

section \<open>Evaluation at concrete records\<close>

lemmas exact_simps =
  exact_arith_def mk_Particle_def fl_sub_def fl_bool_def sqr_f_def momentum_squared_def
  beta_2_def loss_factor_def charge_def

lemma valid_demo: "valid_span demo_span demo_stack"
  by (simp add: valid_span_def demo_span_def demo_stack_def)

section \<open>Energy loss at one record\<close>

text \<open>
  C3. After one application of the single-record \<open>energy_loss\<close>: a record whose tag is
  the neutral sentinel 0 is unchanged, so its energy is; a record with any other tag has
  its energy decreased by exactly the delta of the formula, the charge times
  \<open>log(beta_2 / (1 - beta_2)) / beta_2 - 1\<close> with \<open>beta_2 = (px\<^sup>2 + py\<^sup>2 + pz\<^sup>2) / e\<^sup>2\<close>.
\<close>

theorem energy_loss_neutral_or_delta:
  "(pid_m p = 0 \<longrightarrow> energy_loss A p = p) \<and>
   (pid_m p \<noteq> 0 \<longrightarrow>
      energy_loss A p = p\<lparr>e_m := d2f A (dsub A (f2d A (e_m p)) (spec_energy_delta A p))\<rparr>)"
  by (simp add: energy_loss_def spec_energy_delta_def charge_def beta_2_def
      momentum_squared_def sqr_f_def loss_factor_def Let_def)

theorem energy_loss_neutral_or_delta_witness:
  "pid_m (mk_Particle 0 1 1 0 2) = 0 \<and>
   energy_loss exact_arith (mk_Particle 0 1 1 0 2) = mk_Particle 0 1 1 0 2 \<and>
   pid_m (mk_Particle 1 1 1 0 2) \<noteq> 0 \<and>
   spec_energy_delta exact_arith (mk_Particle 1 1 1 0 2) = Fin (- 1) \<and>
   energy_loss exact_arith (mk_Particle 1 1 1 0 2) = mk_Particle 1 1 1 0 3"
proof -
  have d: "spec_energy_delta exact_arith (mk_Particle 1 1 1 0 2) = Fin (- 1)"
    by (simp add: spec_energy_delta_def exact_simps)
  show ?thesis
    using energy_loss_neutral_or_delta [of "mk_Particle 0 1 1 0 2" exact_arith]
      energy_loss_neutral_or_delta [of "mk_Particle 1 1 1 0 2" exact_arith] d
    by (simp add: exact_simps)
qed

section \<open>The frame of energy loss\<close>

lemma energy_loss_frame: "(energy_loss A p)\<lparr>e_m := e_m p\<rparr> = p"
  by (simp add: energy_loss_def Let_def)

lemma energy_loss_T_frame: "(energy_loss_T A p)\<lparr>e_m := e_m p\<rparr> = p"
  by (simp add: energy_loss_T_def Let_def)

lemma energy_loss_elem_frame: "(energy_loss_elem A p)\<lparr>e_m := e_m p\<rparr> = p"
  by (simp add: energy_loss_elem_def Let_def)

text \<open>
  C10. One application of \<open>energy_loss\<close> changes the member \<open>e\<close> only: putting the old
  energy back gives the old record. This holds for the single-record overload, for the
  generic form at one record, and for every record of the storage after the batch form
  or the iteration over a span.
\<close>

theorem energy_loss_only_e:
  "(energy_loss A p)\<lparr>e_m := e_m p\<rparr> = p \<and>
   (energy_loss_T A p)\<lparr>e_m := e_m p\<rparr> = p \<and>
   (valid_span sp st \<longrightarrow>
      (\<exists>st'. energy_loss_Span A sp st = Some st' \<and> length st' = length st \<and>
         (\<forall>j < length st. (st' ! j)\<lparr>e_m := e_m (st ! j)\<rparr> = st ! j)) \<and>
      (\<exists>st'. for_each (energy_loss A) (begin_m sp) (end_m sp) st = Some st' \<and>
         length st' = length st \<and>
         (\<forall>j < length st. (st' ! j)\<lparr>e_m := e_m (st ! j)\<rparr> = st ! j)))"
proof (intro conjI impI)
  show "(energy_loss A p)\<lparr>e_m := e_m p\<rparr> = p" by (rule energy_loss_frame)
  show "(energy_loss_T A p)\<lparr>e_m := e_m p\<rparr> = p" by (rule energy_loss_T_frame)
next
  assume v: "valid_span sp st"
  show "\<exists>st'. energy_loss_Span A sp st = Some st' \<and> length st' = length st \<and>
         (\<forall>j < length st. (st' ! j)\<lparr>e_m := e_m (st ! j)\<rparr> = st ! j)"
    by (simp add: energy_loss_Span_map_range [OF v] nth_map_range energy_loss_elem_frame)
  from v have "begin_m sp \<le> end_m sp" "end_m sp \<le> length st"
    by (simp_all add: valid_span_def)
  then show "\<exists>st'. for_each (energy_loss A) (begin_m sp) (end_m sp) st = Some st' \<and>
         length st' = length st \<and>
         (\<forall>j < length st. (st' ! j)\<lparr>e_m := e_m (st ! j)\<rparr> = st ! j)"
    by (simp add: for_each_map_range nth_map_range energy_loss_frame)
qed

theorem energy_loss_only_e_witness:
  "valid_span demo_span demo_stack \<and>
   (\<exists>st'. energy_loss_Span exact_arith demo_span demo_stack = Some st' \<and>
      length st' = 3 \<and> px_m (st' ! 1) = Fin 1 \<and> pid_m (st' ! 1) = 1)"
proof -
  from energy_loss_only_e [where A = exact_arith and sp = demo_span and st = demo_stack]
    valid_demo
  obtain st' where s: "energy_loss_Span exact_arith demo_span demo_stack = Some st'"
    and l: "length st' = length demo_stack"
    and r: "\<forall>j < length demo_stack. (st' ! j)\<lparr>e_m := e_m (demo_stack ! j)\<rparr> = demo_stack ! j"
    by blast
  have "1 < length demo_stack" by (simp add: demo_stack_def)
  with r have "(st' ! 1)\<lparr>e_m := e_m (demo_stack ! 1)\<rparr> = demo_stack ! 1"
    by blast
  then have "px_m ((st' ! 1)\<lparr>e_m := e_m (demo_stack ! 1)\<rparr>) = px_m (demo_stack ! 1)"
    and "pid_m ((st' ! 1)\<lparr>e_m := e_m (demo_stack ! 1)\<rparr>) = pid_m (demo_stack ! 1)"
    by simp_all
  then have "px_m (st' ! 1) = Fin 1" "pid_m (st' ! 1) = 1"
    by (simp_all add: demo_stack_def mk_Particle_def)
  with s l valid_demo show ?thesis by (simp add: demo_stack_def)
qed

section \<open>The move operation\<close>

lemma move_particle_fields:
  "move_particle A p =
     p\<lparr>x_m := d2f A (dadd A (f2d A (x_m p)) (dmul A (f2d A (px_m p)) (d_tenth A))),
       y_m := d2f A (dadd A (f2d A (y_m p)) (dmul A (f2d A (py_m p)) (d_tenth A))),
       z_m := d2f A (dadd A (f2d A (z_m p)) (dmul A (f2d A (pz_m p)) (d_tenth A))),
       t_m := d2f A (dadd A (f2d A (t_m p)) (d_tenth A))\<rparr>"
  by (simp add: move_particle_def Let_def)

text \<open>
  C4. After one application of \<open>move_particle\<close> with the fixed step \<open>dt = 0.1\<close>:
  \<open>x' = x + px * dt\<close>, likewise \<open>y\<close> and \<open>z\<close>, \<open>t' = t + dt\<close>, and the momentum is
  unchanged. At one record the sums are formed in double precision and converted back;
  in the batch form every record of the span gets the same update in single precision.
  In exact arithmetic both are the real-number formula.
\<close>

theorem move_particle_step:
  "move_particle A p =
     p\<lparr>x_m := d2f A (dadd A (f2d A (x_m p)) (dmul A (f2d A (px_m p)) (d_tenth A))),
       y_m := d2f A (dadd A (f2d A (y_m p)) (dmul A (f2d A (py_m p)) (d_tenth A))),
       z_m := d2f A (dadd A (f2d A (z_m p)) (dmul A (f2d A (pz_m p)) (d_tenth A))),
       t_m := d2f A (dadd A (f2d A (t_m p)) (d_tenth A))\<rparr> \<and>
   px_m (move_particle A p) = px_m p \<and> py_m (move_particle A p) = py_m p \<and>
   pz_m (move_particle A p) = pz_m p \<and>
   (valid_span sp st \<longrightarrow>
      (\<exists>st'. move_particle_Span A sp st = Some st' \<and> length st' = length st \<and>
         (\<forall>j. begin_m sp \<le> j \<and> j < end_m sp \<longrightarrow>
            st' ! j =
              (st ! j)\<lparr>x_m := fadd A (x_m (st ! j)) (fmul A (px_m (st ! j)) (d2f A (d_tenth A))),
                       y_m := fadd A (y_m (st ! j)) (fmul A (py_m (st ! j)) (d2f A (d_tenth A))),
                       z_m := fadd A (z_m (st ! j)) (fmul A (pz_m (st ! j)) (d2f A (d_tenth A))),
                       t_m := fadd A (t_m (st ! j)) (d2f A (d_tenth A))\<rparr>))) \<and>
   (\<forall>a b c d u v w. x_m q = Fin a \<and> y_m q = Fin b \<and> z_m q = Fin c \<and> t_m q = Fin d \<and>
        px_m q = Fin u \<and> py_m q = Fin v \<and> pz_m q = Fin w \<longrightarrow>
      move_particle exact_arith q =
        q\<lparr>x_m := Fin (a + u * (1 / 10)), y_m := Fin (b + v * (1 / 10)),
          z_m := Fin (c + w * (1 / 10)), t_m := Fin (d + 1 / 10)\<rparr>)"
proof (intro conjI impI allI)
  show "move_particle A p =
     p\<lparr>x_m := d2f A (dadd A (f2d A (x_m p)) (dmul A (f2d A (px_m p)) (d_tenth A))),
       y_m := d2f A (dadd A (f2d A (y_m p)) (dmul A (f2d A (py_m p)) (d_tenth A))),
       z_m := d2f A (dadd A (f2d A (z_m p)) (dmul A (f2d A (pz_m p)) (d_tenth A))),
       t_m := d2f A (dadd A (f2d A (t_m p)) (d_tenth A))\<rparr>"
    by (rule move_particle_fields)
  show "px_m (move_particle A p) = px_m p" by (simp add: move_particle_fields)
  show "py_m (move_particle A p) = py_m p" by (simp add: move_particle_fields)
  show "pz_m (move_particle A p) = pz_m p" by (simp add: move_particle_fields)
next
  assume v: "valid_span sp st"
  then have le: "end_m sp \<le> length st" by (simp add: valid_span_def)
  show "\<exists>st'. move_particle_Span A sp st = Some st' \<and> length st' = length st \<and>
         (\<forall>j. begin_m sp \<le> j \<and> j < end_m sp \<longrightarrow>
            st' ! j =
              (st ! j)\<lparr>x_m := fadd A (x_m (st ! j)) (fmul A (px_m (st ! j)) (d2f A (d_tenth A))),
                       y_m := fadd A (y_m (st ! j)) (fmul A (py_m (st ! j)) (d2f A (d_tenth A))),
                       z_m := fadd A (z_m (st ! j)) (fmul A (pz_m (st ! j)) (d2f A (d_tenth A))),
                       t_m := fadd A (t_m (st ! j)) (d2f A (d_tenth A))\<rparr>)"
    using le by (simp add: move_particle_Span_map_range [OF v] nth_map_range move_elem_def Let_def)
next
  fix a b c d u v w
  assume "x_m q = Fin a \<and> y_m q = Fin b \<and> z_m q = Fin c \<and> t_m q = Fin d \<and>
        px_m q = Fin u \<and> py_m q = Fin v \<and> pz_m q = Fin w"
  then show "move_particle exact_arith q =
        q\<lparr>x_m := Fin (a + u * (1 / 10)), y_m := Fin (b + v * (1 / 10)),
          z_m := Fin (c + w * (1 / 10)), t_m := Fin (d + 1 / 10)\<rparr>"
    by (simp add: move_particle_fields exact_arith_def)
qed

theorem move_particle_step_witness:
  "valid_span demo_span demo_stack \<and>
   x_m (mk_Particle 1 1 1 0 2) = Fin 0 \<and> px_m (mk_Particle 1 1 1 0 2) = Fin 1 \<and>
   move_particle exact_arith (mk_Particle 1 1 1 0 2) =
     (mk_Particle 1 1 1 0 2)\<lparr>x_m := Fin (1 / 10), y_m := Fin (1 / 10), z_m := Fin 0,
        t_m := Fin (1 / 10)\<rparr> \<and>
   (\<exists>st'. move_particle_Span exact_arith demo_span demo_stack = Some st' \<and>
      x_m (st' ! 1) = Fin (1 / 10) \<and> px_m (st' ! 1) = Fin 1 \<and> st' ! 2 = demo_stack ! 2)"
proof -
  note t = move_particle_step [of exact_arith "mk_Particle 1 1 1 0 2" demo_span demo_stack
      "mk_Particle 1 1 1 0 2"]
  from t valid_demo obtain st' where
    s: "move_particle_Span exact_arith demo_span demo_stack = Some st'"
    and r: "\<forall>j. begin_m demo_span \<le> j \<and> j < end_m demo_span \<longrightarrow>
            st' ! j =
              (demo_stack ! j)\<lparr>x_m := fadd exact_arith (x_m (demo_stack ! j)) (fmul exact_arith (px_m (demo_stack ! j)) (d2f exact_arith (d_tenth exact_arith))),
                       y_m := fadd exact_arith (y_m (demo_stack ! j)) (fmul exact_arith (py_m (demo_stack ! j)) (d2f exact_arith (d_tenth exact_arith))),
                       z_m := fadd exact_arith (z_m (demo_stack ! j)) (fmul exact_arith (pz_m (demo_stack ! j)) (d2f exact_arith (d_tenth exact_arith))),
                       t_m := fadd exact_arith (t_m (demo_stack ! j)) (d2f exact_arith (d_tenth exact_arith))\<rparr>"
    by blast
  have "st' = map_range (move_elem exact_arith) (begin_m demo_span) (end_m demo_span) demo_stack"
    using s move_particle_Span_map_range [OF valid_demo, of exact_arith] by simp
  moreover have "2 < length demo_stack" by (simp add: demo_stack_def)
  ultimately have s2: "st' ! 2 = demo_stack ! 2"
    by (simp add: nth_map_range demo_span_def)
  have "x_m (st' ! 1) = Fin (1 / 10) \<and> px_m (st' ! 1) = Fin 1"
    using r [rule_format, of 1] by (simp add: demo_span_def demo_stack_def exact_simps)
  moreover have "move_particle exact_arith (mk_Particle 1 1 1 0 2) =
     (mk_Particle 1 1 1 0 2)\<lparr>x_m := Fin (1 / 10), y_m := Fin (1 / 10), z_m := Fin 0,
        t_m := Fin (1 / 10)\<rparr>"
    using t by (simp add: exact_simps)
  ultimately show ?thesis
    using valid_demo s s2 by (simp add: mk_Particle_def)
qed

section \<open>The strided views\<close>

text \<open>
  C5. Round trip through a strided view: for a span within the storage, an index \<open>i\<close>
  below its size and any member, writing a value through the view of that member at
  element \<open>i\<close> succeeds, and the accessor of the record at index \<open>i\<close> of the span then
  returns the written value.
\<close>

theorem strided_view_round_trip:
  "valid_span sp st \<Longrightarrow> i < span_size sp \<Longrightarrow>
   (\<exists>st'. set_coeff (span_f k sp) i v st = Some st' \<and>
      fget k (st' ! (begin_m sp + i)) = v) \<and>
   (\<exists>st'. set_icoeff (span_pid sp) i w st = Some st' \<and>
      pid_m (st' ! (begin_m sp + i)) = w)"
proof -
  assume "valid_span sp st" "i < span_size sp"
  then have lt: "begin_m sp + i < length st"
    by (auto simp: valid_span_def span_size_def)
  have "fget k ((st[begin_m sp + i := fset k v (st ! (begin_m sp + i))]) ! (begin_m sp + i)) = v"
    using lt by (cases k) simp_all
  then show ?thesis
    using lt by (simp add: set_coeff_span_f set_icoeff_span_pid)
qed

theorem strided_view_round_trip_witness:
  "valid_span demo_span demo_stack \<and> 1 < span_size demo_span \<and>
   (\<exists>st'. set_coeff (span_f Fe demo_span) 1 (Fin 7) demo_stack = Some st' \<and>
      e_m (st' ! 1) = Fin 7) \<and>
   (\<exists>st'. set_icoeff (span_pid demo_span) 1 5 demo_stack = Some st' \<and>
      pid_m (st' ! 1) = 5)"
proof -
  have s: "1 < span_size demo_span" by (simp add: span_size_def demo_span_def)
  show ?thesis
    using strided_view_round_trip [OF valid_demo s, of Fe "Fin 7" 5] valid_demo s
    by (simp add: demo_span_def)
qed

section \<open>The operation list on a span\<close>

lemma visit_process_map_range:
  assumes v: "valid_span sp st"
  shows "visit_process A proc (sp, st) =
           Some (sp, map_range (proc_elem A proc) (begin_m sp) (end_m sp) st)"
proof -
  from v have le: "begin_m sp \<le> end_m sp" "end_m sp \<le> length st"
    by (simp_all add: valid_span_def)
  show ?thesis
    by (cases proc)
      (simp_all add: energy_loss_Span_map_range [OF v] move_particle_Span_map_range [OF v]
        for_each_map_range [OF le])
qed

lemma run_process_list_map_range:
  "valid_span sp st \<Longrightarrow>
   run_process_list A ps (sp, st) =
     Some (sp, foldl (\<lambda>s proc. map_range (proc_elem A proc) (begin_m sp) (end_m sp) s) st ps)"
proof (induction ps arbitrary: st)
  case Nil
  then show ?case by simp
next
  case (Cons proc ps)
  then show ?case
    by (simp add: visit_process_map_range)
qed

lemma visit_process_span:
  "visit_process A proc (sp, st) = Some (sp', st') \<Longrightarrow> sp' = sp"
  by (cases proc) auto

lemma run_process_list_span:
  "run_process_list A ps (sp, st) = Some (sp', st') \<Longrightarrow> sp' = sp"
proof (induction ps arbitrary: sp st)
  case Nil
  then show ?case by simp
next
  case (Cons proc ps)
  from Cons.prems obtain sp1 st1 where
    1: "visit_process A proc (sp, st) = Some (sp1, st1)"
    and 2: "run_process_list A ps (sp1, st1) = Some (sp', st')"
    by (auto split: option.splits)
  from visit_process_span [OF 1] Cons.IH [OF 2] show ?case by simp
qed

text \<open>
  C9. A \<open>ParticleSpan\<close> is not changed by the operations applied to it: after any
  functor of the variant, and after any operation list, \<open>begin()\<close>, \<open>end()\<close> and
  \<open>size()\<close> of the span are what they were; only the storage changes.
\<close>

theorem span_unchanged:
  "(visit_process A proc (sp, st) = Some (sp1, st1) \<longrightarrow>
      begin_m sp1 = begin_m sp \<and> end_m sp1 = end_m sp \<and> span_size sp1 = span_size sp) \<and>
   (run_process_list A ps (sp, st) = Some (sp2, st2) \<longrightarrow>
      begin_m sp2 = begin_m sp \<and> end_m sp2 = end_m sp \<and> span_size sp2 = span_size sp)"
  by (auto dest: visit_process_span run_process_list_span)

theorem span_unchanged_witness:
  "\<exists>sp1 st1 sp2 st2.
     visit_process exact_arith ContinuousEnergyLoss (demo_span, demo_stack) = Some (sp1, st1) \<and>
     run_process_list exact_arith [ContinuousEnergyLoss, MoveParticle] (demo_span, demo_stack)
       = Some (sp2, st2) \<and>
     begin_m sp1 = 0 \<and> end_m sp1 = 2 \<and> span_size sp1 = 2 \<and>
     begin_m sp2 = 0 \<and> end_m sp2 = 2 \<and> span_size sp2 = 2"
proof -
  obtain sp1 st1 where 1:
    "visit_process exact_arith ContinuousEnergyLoss (demo_span, demo_stack) = Some (sp1, st1)"
    using visit_process_map_range [OF valid_demo] by blast
  obtain sp2 st2 where 2:
    "run_process_list exact_arith [ContinuousEnergyLoss, MoveParticle] (demo_span, demo_stack)
       = Some (sp2, st2)"
    using run_process_list_map_range [OF valid_demo] by blast
  note t = span_unchanged [of exact_arith ContinuousEnergyLoss demo_span demo_stack sp1 st1
      "[ContinuousEnergyLoss, MoveParticle]" sp2 st2]
  from t 1 have a: "begin_m sp1 = begin_m demo_span \<and> end_m sp1 = end_m demo_span \<and>
      span_size sp1 = span_size demo_span"
    by blast
  from t 2 have b: "begin_m sp2 = begin_m demo_span \<and> end_m sp2 = end_m demo_span \<and>
      span_size sp2 = span_size demo_span"
    by blast
  from a b have "begin_m sp1 = 0 \<and> end_m sp1 = 2 \<and> span_size sp1 = 2 \<and>
     begin_m sp2 = 0 \<and> end_m sp2 = 2 \<and> span_size sp2 = 2"
    by (simp add: demo_span_def span_size_def)
  with 1 2 show ?thesis by blast
qed

text \<open>Moving and losing energy commute at one record, in each of their forms.\<close>

lemma move_elem_energy_loss_elem:
  "move_elem A (energy_loss_elem A p) = energy_loss_elem A (move_elem A p)"
  by (simp add: move_elem_def energy_loss_elem_def beta_2_def momentum_squared_def charge_def
      Let_def)

lemma move_elem_energy_loss:
  "move_elem A (energy_loss A p) = energy_loss A (move_elem A p)"
  by (simp add: move_elem_def energy_loss_def beta_2_def momentum_squared_def charge_def
      Let_def)

lemma move_particle_energy_loss_elem:
  "move_particle A (energy_loss_elem A p) = energy_loss_elem A (move_particle A p)"
  by (simp add: move_particle_fields energy_loss_elem_def beta_2_def momentum_squared_def
      charge_def Let_def)

lemma move_particle_energy_loss:
  "move_particle A (energy_loss A p) = energy_loss A (move_particle A p)"
  by (simp add: move_particle_fields energy_loss_def beta_2_def momentum_squared_def charge_def
      Let_def)

lemma move_loss_commute:
  "M \<in> {MoveParticle, MoveParticleNoEigen} \<Longrightarrow>
   L \<in> {ContinuousEnergyLoss, ContinuousEnergyLossNoEigen} \<Longrightarrow>
   proc_elem A L (proc_elem A M p) = proc_elem A M (proc_elem A L p)"
  by (auto simp: move_elem_energy_loss_elem move_elem_energy_loss
      move_particle_energy_loss_elem move_particle_energy_loss)

text \<open>
  C6 (as amended). Applying the list \<open>[P, Q]\<close> is applying \<open>P\<close>, then \<open>Q\<close> to its
  result, in list order. For a move and an energy loss, in either of their forms, the
  order makes no difference on a span within the storage: the move writes \<open>x\<close>,
  \<open>y\<close>, \<open>z\<close>, \<open>t\<close> and reads the momentum, the energy loss writes \<open>e\<close> and reads the
  momentum, \<open>e\<close> and the tag.
\<close>

theorem process_list_order:
  "run_process_list A [P, Q] s = Option.bind (visit_process A P s) (visit_process A Q) \<and>
   (valid_span sp st \<and> M \<in> {MoveParticle, MoveParticleNoEigen} \<and>
    L \<in> {ContinuousEnergyLoss, ContinuousEnergyLossNoEigen} \<longrightarrow>
      run_process_list A [M, L] (sp, st) = run_process_list A [L, M] (sp, st))"
proof (intro conjI impI)
  show "run_process_list A [P, Q] s = Option.bind (visit_process A P s) (visit_process A Q)"
    by (simp split: option.splits)
next
  assume a: "valid_span sp st \<and> M \<in> {MoveParticle, MoveParticleNoEigen} \<and>
    L \<in> {ContinuousEnergyLoss, ContinuousEnergyLossNoEigen}"
  then have v: "valid_span sp st" by simp
  from a have M: "M \<in> {MoveParticle, MoveParticleNoEigen}"
    and L: "L \<in> {ContinuousEnergyLoss, ContinuousEnergyLossNoEigen}" by simp_all
  have "\<And>p. proc_elem A L (proc_elem A M p) = proc_elem A M (proc_elem A L p)"
    by (rule move_loss_commute [OF M L])
  then show "run_process_list A [M, L] (sp, st) = run_process_list A [L, M] (sp, st)"
    by (simp add: run_process_list_map_range [OF v] map_range_comp)
qed

theorem process_list_order_witness:
  "valid_span demo_span demo_stack \<and>
   MoveParticleNoEigen \<in> {MoveParticle, MoveParticleNoEigen} \<and>
   ContinuousEnergyLoss \<in> {ContinuousEnergyLoss, ContinuousEnergyLossNoEigen} \<and>
   run_process_list exact_arith [MoveParticleNoEigen, ContinuousEnergyLoss]
     (demo_span, demo_stack) =
   run_process_list exact_arith [ContinuousEnergyLoss, MoveParticleNoEigen]
     (demo_span, demo_stack) \<and>
   run_process_list exact_arith [MoveParticleNoEigen, ContinuousEnergyLoss]
     (demo_span, demo_stack) =
   Option.bind (visit_process exact_arith MoveParticleNoEigen (demo_span, demo_stack))
     (visit_process exact_arith ContinuousEnergyLoss)"
  using process_list_order [of exact_arith MoveParticleNoEigen ContinuousEnergyLoss
      "(demo_span, demo_stack)" demo_span demo_stack MoveParticleNoEigen ContinuousEnergyLoss]
    valid_demo
  by blast

lemma map_range_demo:
  "map_range f 0 2 [a, b, c] = [f a, f b, c]"
  by (simp add: map_range_def upt_rec)

text \<open>
  On the storage \<open>demo_stack\<close>, \<open>[MoveParticle, ContinuousEnergyLoss]\<close> and
  \<open>[ContinuousEnergyLoss, MoveParticle]\<close> give the same result.
\<close>

theorem process_list_order_counterexample:
  "run_process_list exact_arith [MoveParticle, ContinuousEnergyLoss] (demo_span, demo_stack) =
     Some (demo_span,
       [(mk_Particle 0 2 0 0 1)\<lparr>e_m := NaN, x_m := Fin (1 / 5), t_m := Fin (1 / 10)\<rparr>,
        (mk_Particle 1 1 1 0 3)\<lparr>x_m := Fin (1 / 10), y_m := Fin (1 / 10), t_m := Fin (1 / 10)\<rparr>,
        mk_Particle (- 1) 3 4 0 10]) \<and>
   run_process_list exact_arith [ContinuousEnergyLoss, MoveParticle] (demo_span, demo_stack) =
     Some (demo_span,
       [(mk_Particle 0 2 0 0 1)\<lparr>e_m := NaN, x_m := Fin (1 / 5), t_m := Fin (1 / 10)\<rparr>,
        (mk_Particle 1 1 1 0 3)\<lparr>x_m := Fin (1 / 10), y_m := Fin (1 / 10), t_m := Fin (1 / 10)\<rparr>,
        mk_Particle (- 1) 3 4 0 10])"
proof -
  have b: "begin_m demo_span = 0" "end_m demo_span = 2" by (simp_all add: demo_span_def)
  show ?thesis
    unfolding run_process_list_map_range [OF valid_demo] b
    by (simp add: demo_stack_def map_range_demo move_elem_def energy_loss_elem_def exact_simps
        Let_def)
qed

section \<open>The overload and the template at one record\<close>

text \<open>
  On a charged record the overload does what the template does; a neutral record it
  leaves as it is.
\<close>

lemma energy_loss_charged: "charge p \<Longrightarrow> energy_loss A p = energy_loss_T A p"
  by (simp add: energy_loss_def energy_loss_T_def Let_def)


section \<open>Rounding to nearest\<close>

text \<open>The rounding keeps the sign of its argument.\<close>

lemma rne_nonneg: "0 \<le> q \<Longrightarrow> 0 \<le> rne q"
  by (auto simp: rne_def Let_def)

lemma rne_nonpos: "q < 0 \<Longrightarrow> rne q \<le> 0"
proof -
  assume "q < 0"
  then have "\<lfloor>q\<rfloor> \<le> - 1" by linarith
  then show ?thesis by (auto simp: rne_def Let_def)
qed

lemma round_to_sign: "sign_keeping (round_to p emin emax)"
  unfolding sign_keeping_def
proof (intro allI impI)
  fix x :: real
  assume x: "x \<noteq> 0"
  define ulp :: real where "ulp = 2 powi (max (expo x) emin - int p + 1)"
  have u: "0 < ulp" by (simp add: ulp_def)
  define y where "y = of_int (rne (x / ulp)) * ulp"
  have r: "round_to p emin emax x =
      (if 2 powi (emax + 1) \<le> \<bar>y\<bar> then inf_of (x < 0)
       else if y = 0 then zero_of (x < 0) else Finite y)"
    by (simp add: round_to_def Let_def y_def ulp_def)
  have s: "y \<noteq> 0 \<Longrightarrow> (y < 0) = (x < 0)"
  proof (cases "x < 0")
    case True
    then have "x / ulp < 0" using u by (simp add: divide_neg_pos)
    then have "rne (x / ulp) \<le> 0" by (rule rne_nonpos)
    then have "y \<le> 0" using u by (simp add: y_def mult_nonpos_nonneg)
    then show "y \<noteq> 0 \<Longrightarrow> (y < 0) = (x < 0)" using True by simp
  next
    case False
    then have "0 \<le> x / ulp" using u by simp
    then have "0 \<le> rne (x / ulp)" by (rule rne_nonneg)
    then have "0 \<le> y" using u by (simp add: y_def)
    then show "y \<noteq> 0 \<Longrightarrow> (y < 0) = (x < 0)" using False by simp
  qed
  show "\<not> fp_nan (round_to p emin emax x) \<and> signbit (round_to p emin emax x) = (x < 0)"
    using s by (auto simp: r inf_of_def zero_of_def)
qed

text \<open>The value of the rounding of a real whose binade is known.\<close>

lemma expo_eq: "2 powi k \<le> \<bar>x\<bar> \<Longrightarrow> \<bar>x\<bar> < 2 powi (k + 1) \<Longrightarrow> expo x = k"
proof -
  assume a: "2 powi k \<le> \<bar>x\<bar>" and b: "\<bar>x\<bar> < 2 powi (k + 1)"
  have "(0::real) < 2 powi k" by simp
  with a have pos: "0 < \<bar>x\<bar>" by linarith
  have "(2::real) powr real_of_int k = 2 powi k"
    by (simp add: powr_real_of_int')
  moreover have "(2::real) powr (real_of_int k + 1) = 2 powi (k + 1)"
    using powr_real_of_int' [of "2::real" "k + 1"] by simp
  ultimately
  have "(2::real) powr k \<le> \<bar>x\<bar> \<and> \<bar>x\<bar> < 2 powr (real_of_int k + 1)"
    using a b by simp
  then show ?thesis
    unfolding expo_def using floor_log_eq_powr_iff [of "\<bar>x\<bar>" 2 k] pos by simp
qed

lemma rne_near: "\<bar>q - of_int n\<bar> < 1 / 2 \<Longrightarrow> rne q = n"
proof -
  assume a: "\<bar>q - of_int n\<bar> < 1 / 2"
  show ?thesis
  proof (cases "of_int n \<le> q")
    case True
    with a have "\<lfloor>q\<rfloor> = n" by linarith
    with a True show ?thesis by (simp add: rne_def Let_def)
  next
    case False
    with a have f: "\<lfloor>q\<rfloor> = n - 1" by linarith
    with a False show ?thesis by (auto simp: rne_def Let_def)
  qed
qed

lemma round_to_Finite:
  assumes "2 powi k \<le> \<bar>x\<bar>" "\<bar>x\<bar> < 2 powi (k + 1)"
    and "u = 2 powi (max k emin - int p + 1)"
    and "rne (x / u) = n" and "n \<noteq> 0" and "\<bar>of_int n * u\<bar> < 2 powi (emax + 1)"
  shows "round_to p emin emax x = Finite (of_int n * u)"
proof -
  have "expo x = k" using assms(1,2) by (rule expo_eq)
  moreover have "0 < u" using assms(3) by simp
  ultimately show ?thesis
    using assms(3-6) by (simp add: round_to_def Let_def)
qed

lemmas pow_eval = power_int_def power_divide

text \<open>The float 1 and the double nearest to \<open>1 / 10\<close>.\<close>

lemma b32_one: "binary32 1 = Finite 1"
proof -
  have "round_to 24 (- 126) 127 1 = Finite (of_int 8388608 * (1 / 2 ^ 23))"
    by (rule round_to_Finite [where k = 0]) (simp_all add: pow_eval rne_near)
  then show ?thesis by (simp add: binary32_def)
qed


section \<open>The loss factor out of the domain\<close>

text \<open>
  For \<open>\<beta>\<^sup>2 \<ge> 1\<close> or \<open>\<beta>\<^sup>2 \<le> 0\<close> the quotient \<open>\<beta>\<^sup>2 / (1 - \<beta>\<^sup>2)\<close> is a NaN, an infinity, a zero
  or negative, whatever the rounding does to its magnitude; its logarithm is then not
  finite, and neither is the factor nor the energy of a charged record.
\<close>

lemma sign_keepingD:
  "sign_keeping r \<Longrightarrow> x \<noteq> 0 \<Longrightarrow> \<not> fp_nan (r x) \<and> signbit (r x) = (x < 0)"
  by (simp add: sign_keeping_def)

lemma signbit_val: "signbit u \<Longrightarrow> \<not> fp_inf u \<Longrightarrow> \<not> fp_zero u \<Longrightarrow> fp_val u < 0"
  by (cases u) simp_all

lemma nosign_val: "\<not> signbit u \<Longrightarrow> \<not> fp_nan u \<Longrightarrow> \<not> fp_inf u \<Longrightarrow> \<not> fp_zero u \<Longrightarrow> 0 < fp_val u"
  by (cases u) simp_all

lemma div_neg_not_pos:
  assumes r: "sign_keeping r" and n: "\<not> fp_nan d" and a: "a \<noteq> 0" and s: "signbit d = (0 < a)"
  shows "not_pos (fp_div r (Finite a) d)"
proof (cases "fp_inf d \<or> fp_zero d")
  case True
  then show ?thesis
    using n a s by (auto simp: fp_div_def not_pos_def zero_of_def inf_of_def)
next
  case False
  then have v: "(fp_val d < 0) = (0 < a)" "fp_val d \<noteq> 0"
    using n s signbit_val [of d] nosign_val [of d] by (cases d; auto)+
  then have "a / fp_val d < 0"
    using a by (cases "0 < a") (auto simp: divide_less_0_iff)
  then have "signbit (r (a / fp_val d))"
    using sign_keepingD [OF r, of "a / fp_val d"] a v(2) by simp
  then show ?thesis
    using False n a by (simp add: fp_div_def not_pos_def)
qed

lemma quotient_not_pos:
  assumes r: "sign_keeping r"
    and b: "fp_le (Finite 1) b \<or> fp_le b (Finite 0)"
  shows "not_pos (fp_div r b (fp_sub r (Finite 1) b))"
proof (cases b)
  case (Finite a)
  with b have a: "1 \<le> a \<or> a \<le> 0" by (auto simp: fp_le_def)
  show ?thesis
  proof (cases "a = 0 \<or> a = 1")
    case True
    then show ?thesis
      using Finite by (auto simp: fp_sub_def fp_add_def fp_div_def not_pos_def zero_of_def inf_of_def)
  next
    case False
    then have ne: "1 - a \<noteq> 0" "a \<noteq> 0" by simp_all
    have d: "fp_sub r (Finite 1) (Finite a) = r (1 - a)"
      using ne by (simp add: fp_sub_def fp_add_def)
    have "\<not> fp_nan (r (1 - a))" "signbit (r (1 - a)) = (0 < a)"
      using sign_keepingD [OF r ne(1)] a False by auto
    then show ?thesis
      using Finite d div_neg_not_pos [OF r _ ne(2)] by simp
  qed
next
  case NegZero
  then show ?thesis
    by (simp add: fp_sub_def fp_add_def fp_div_def not_pos_def zero_of_def)
next
  case PosInf
  then show ?thesis by (simp add: fp_sub_def fp_add_def fp_div_def not_pos_def)
next
  case NegInf
  then show ?thesis by (simp add: fp_sub_def fp_add_def fp_div_def not_pos_def)
next
  case NotANumber
  with b show ?thesis by (simp add: fp_le_def)
qed

lemma log_not_pos: "not_pos q \<Longrightarrow> \<not> fp_finite (fp_log r lg q)"
  by (cases q) (auto simp: fp_log_def not_pos_def)

lemma div_nonfinite: "\<not> fp_finite l \<Longrightarrow> \<not> fp_finite (fp_div r l b)"
  by (cases l; cases b) (auto simp: fp_div_def inf_of_def)

lemma sub_one_nonfinite: "\<not> fp_finite m \<Longrightarrow> \<not> fp_finite (fp_sub r m (Finite 1))"
  by (cases m) (auto simp: fp_sub_def fp_add_def)

lemma factor_nonfinite:
  assumes "sign_keeping r" and "fp_le (Finite 1) b \<or> fp_le b (Finite 0)"
  shows "\<not> fp_finite
           (fp_sub r (fp_div r (fp_log r lg (fp_div r b (fp_sub r (Finite 1) b))) b) (Finite 1))"
  by (intro sub_one_nonfinite div_nonfinite log_not_pos quotient_not_pos assms)

lemma charged_update_nonfinite:
  "\<not> fp_finite l \<Longrightarrow> \<not> fp_finite (fp_sub r e (fp_mul r (Finite 1) l))"
  by (cases l; cases e) (auto simp: fp_sub_def fp_add_def fp_mul_def inf_of_def)

lemma cvt_nonfinite: "\<not> fp_finite v \<Longrightarrow> \<not> fp_finite (fp_cvt r v)"
  by (simp add: fp_cvt_def)

section \<open>The error of the rounding\<close>

text \<open>
  The rounding is within half a spacing of its argument; below the largest binade its
  result is finite, and in the normal range it is within a factor 2 of the argument
  and has its sign.
\<close>

lemma expo_bounds:
  assumes "x \<noteq> 0"
  shows "2 powi (expo x) \<le> \<bar>x\<bar>" and "\<bar>x\<bar> < 2 powi (expo x + 1)"
proof -
  from assms have pos: "0 < \<bar>x\<bar>" by simp
  have "(2::real) powr real_of_int (expo x) \<le> \<bar>x\<bar> \<and> \<bar>x\<bar> < 2 powr (real_of_int (expo x) + 1)"
    using floor_log_eq_powr_iff [of "\<bar>x\<bar>" 2 "expo x"] pos by (simp add: expo_def)
  moreover have "(2::real) powr real_of_int (expo x) = 2 powi (expo x)"
    by (simp add: powr_real_of_int')
  moreover have "(2::real) powr (real_of_int (expo x) + 1) = 2 powi (expo x + 1)"
    using powr_real_of_int' [of "2::real" "expo x + 1"] by simp
  ultimately show "2 powi (expo x) \<le> \<bar>x\<bar>" and "\<bar>x\<bar> < 2 powi (expo x + 1)"
    by simp_all
qed






section \<open>The loss factor in the domain\<close>

text \<open>
  For a float \<open>\<beta>\<^sup>2\<close> strictly between 0 and 1 every step of the double-precision factor
  is finite: \<open>1 - \<beta>\<^sup>2 \<ge> 2\<^sup>-\<^sup>2\<^sup>5\<close> after rounding, the quotient is between \<open>2\<^sup>-\<^sup>1\<^sup>5\<^sup>1\<close> and \<open>2\<^sup>2\<^sup>6\<close>,
  the logarithm is small and the division by \<open>\<beta>\<^sup>2 \<ge> 2\<^sup>-\<^sup>1\<^sup>4\<^sup>9\<close> stays far below the
  largest double.
\<close>

lemma pw_mono: "a \<le> b \<Longrightarrow> (2::real) powi a \<le> 2 powi b"
  by (intro power_int_increasing) simp_all






section \<open>Energy loss in the arithmetic of the program\<close>

lemmas ieee_simps = ieee_arith_def rounded_arith_def

lemma binary32_sign: "sign_keeping binary32"
  unfolding binary32_def by (rule round_to_sign)

lemma binary64_sign: "sign_keeping binary64"
  unfolding binary64_def by (rule round_to_sign)

lemma ieee_loss_factor:
  "loss_factor (ieee_arith lf ld) b =
     fp_sub binary64 (fp_div binary64 (fp_log binary64 ld (fp_div binary64 b (fp_sub binary64 (Finite 1) b))) b)
       (Finite 1)"
  by (simp add: loss_factor_def ieee_simps)

lemma ieee_energy_loss_T:
  "energy_loss_T (ieee_arith lf ld) p =
     p\<lparr>e_m := fp_cvt binary32 (fp_sub binary64 (e_m p)
              (fp_mul binary64 (fp_bool (charge p))
                 (loss_factor (ieee_arith lf ld) (beta_2 (ieee_arith lf ld) p))))\<rparr>"
  by (simp add: energy_loss_T_def Let_def ieee_simps)

lemma ieee_energy_loss_elem:
  "energy_loss_elem (ieee_arith lf ld) p =
     p\<lparr>e_m := fp_sub binary32 (e_m p)
              (fp_mul binary32 (fp_bool (charge p))
                 (fp_sub binary32
                    (fp_div binary32
                       (fp_log binary32 lf (fp_div binary32 (beta_2 (ieee_arith lf ld) p)
                          (fp_sub binary32 (Finite 1) (beta_2 (ieee_arith lf ld) p))))
                       (beta_2 (ieee_arith lf ld) p))
                    (Finite 1)))\<rparr>"
  by (simp add: energy_loss_elem_def Let_def ieee_simps fp_cvt_def b32_one)

lemma out_of_domain_nonfinite:
  assumes c: "charge p"
    and b: "fp_le (Finite 1) (beta_2 (ieee_arith lf ld) p) \<or>
            fp_le (beta_2 (ieee_arith lf ld) p) (Finite 0)"
  shows "\<not> fp_finite (e_m (energy_loss_T (ieee_arith lf ld) p))"
    and "\<not> fp_finite (e_m (energy_loss_elem (ieee_arith lf ld) p))"
proof -
  show "\<not> fp_finite (e_m (energy_loss_T (ieee_arith lf ld) p))"
    using c factor_nonfinite [OF binary64_sign b, of ld]
    by (simp add: ieee_energy_loss_T ieee_loss_factor fp_bool_def cvt_nonfinite
        charged_update_nonfinite)
  show "\<not> fp_finite (e_m (energy_loss_elem (ieee_arith lf ld) p))"
    using c factor_nonfinite [OF binary32_sign b, of lf]
    by (simp add: ieee_energy_loss_elem fp_bool_def charged_update_nonfinite)
qed









section \<open>Values of the roundings\<close>










text \<open>
  The move of \<open>cancel_Particle\<close>. In double precision \<open>px * dt\<close> is \<open>-3\<close> times the double
  nearest to \<open>1 / 10\<close>, which does not cancel the float nearest to 0.3; in single precision
  \<open>dt\<close> is first rounded to float and the product is exactly \<open>- x\<close>.
\<close>

lemmas fp_ops = fp_add_def fp_sub_def fp_mul_def fp_div_def fp_cvt_def fp_bool_def zero_of_def
  inf_of_def



section \<open>Storages of one record\<close>


lemma valid_unit: "valid_span unit_span [a]"
  by (simp add: valid_span_def unit_span_def)

lemma beta_2_one: "beta_2 (ieee_arith lf ld) (mk_fp_Particle i 1 1 c) = Finite 1"
  by (simp add: beta_2_def momentum_squared_def sqr_f_def mk_fp_Particle_def ieee_simps fp_ops
      b32_one)


section \<open>Overflow and underflow of the rounding\<close>

lemma pw_less_D: "(2::real) powi a < 2 powi b \<Longrightarrow> a < b"
  using pw_mono [of b a] by (cases "a < b") simp_all




lemma round_to_underflow:
  assumes x: "\<bar>x\<bar> < 2 powi (emin - int p)" and x0: "x \<noteq> 0"
  shows "round_to p emin emax x = zero_of (x < 0)"
proof -
  define k where "k = expo x"
  from expo_bounds [OF x0] have kb: "2 powi k \<le> \<bar>x\<bar>" by (simp add: k_def)
  then have "(2::real) powi k < 2 powi (emin - int p)" using x by linarith
  then have "k < emin - int p" by (rule pw_less_D)
  then have m: "max k emin = emin" by simp
  define ulp :: real where "ulp = 2 powi (emin - int p + 1)"
  have u: "0 < ulp" by (simp add: ulp_def)
  have "ulp = 2 * 2 powi (emin - int p)"
    by (simp add: ulp_def power_int_add)
  with x have "\<bar>x\<bar> < ulp / 2" by simp
  then have "\<bar>x\<bar> / ulp < 1 / 2" using u by (simp add: pos_divide_less_eq)
  then have "\<bar>x / ulp - of_int 0\<bar> < 1 / 2" using u by simp
  then have "rne (x / ulp) = 0" by (rule rne_near)
  moreover have "\<not> (2::real) powi (emax + 1) \<le> 0"
    by (simp add: not_le)
  ultimately show ?thesis
    by (simp add: round_to_def Let_def ulp_def k_def [symmetric] m)
qed


section \<open>The batch form on a slow neutral record\<close>



lemma b32_tiny: "x = 1 / 2 ^ 200 \<Longrightarrow> binary32 x = Finite 0"
proof -
  have "round_to 24 (- 126) 127 (1 / 2 ^ 200) = zero_of (1 / 2 ^ 200 < (0::real))"
    by (rule round_to_underflow) (simp_all add: pow_eval)
  then have "binary32 (1 / 2 ^ 200) = Finite 0" by (simp add: binary32_def zero_of_def)
  then show "x = 1 / 2 ^ 200 \<Longrightarrow> binary32 x = Finite 0" by blast
qed


lemma beta_2_tiny: "beta_2 (ieee_arith lf ld) tiny_Particle = Finite 0"
  by (simp add: beta_2_def momentum_squared_def sqr_f_def tiny_Particle_def mk_fp_Particle_def
      ieee_simps fp_ops b32_one b32_tiny)






section \<open>Neutral records out of the domain\<close>






section \<open>Record by record against the batch form\<close>






section \<open>The two precisions without cancellation\<close>





















section \<open>No error is raised\<close>

text \<open>
  C8. \<open>energy_loss\<close> raises no error. The source has no \<^verbatim>\<open>throw\<close> and no error
  return: the single-record forms are total functions from records to records, and the
  only failure of the embedding, \<open>None\<close>, is an access outside the storage, which C++
  leaves undefined. On a span within the storage every functor and every operation list
  returns a result, for every arithmetic. In the arithmetic of the program (binary32,
  binary64, any logarithm of the library), a charged record whose \<open>beta_2\<close>, as the
  program computes it in binary32, is \<open>\<ge> 1\<close> or \<open>\<le> 0\<close> gets an energy that is an infinity
  or NaN: from the overload, from the template at one record and from the batch form;
  and on a span within the storage the batch form and the iteration of the overload
  return a storage with that energy in the record.
\<close>

theorem energy_loss_no_error:
  "(valid_span sp st \<longrightarrow>
      (\<exists>s'. visit_process A proc (sp, st) = Some s') \<and>
      (\<exists>s'. run_process_list A ps (sp, st) = Some s')) \<and>
   (charge p \<and>
    (fp_le (Finite 1) (beta_2 (ieee_arith lf ld) p) \<or>
     fp_le (beta_2 (ieee_arith lf ld) p) (Finite 0)) \<longrightarrow>
      \<not> fp_finite (e_m (energy_loss (ieee_arith lf ld) p)) \<and>
      \<not> fp_finite (e_m (energy_loss_T (ieee_arith lf ld) p)) \<and>
      \<not> fp_finite (e_m (energy_loss_elem (ieee_arith lf ld) p))) \<and>
   (valid_span sq sf \<and> begin_m sq \<le> j \<and> j < end_m sq \<and> charge (sf ! j) \<and>
    (fp_le (Finite 1) (beta_2 (ieee_arith lf ld) (sf ! j)) \<or>
     fp_le (beta_2 (ieee_arith lf ld) (sf ! j)) (Finite 0)) \<longrightarrow>
      (\<exists>s'. energy_loss_Span (ieee_arith lf ld) sq sf = Some s' \<and>
            \<not> fp_finite (e_m (s' ! j))) \<and>
      (\<exists>s'. for_each (energy_loss (ieee_arith lf ld)) (begin_m sq) (end_m sq) sf = Some s' \<and>
            \<not> fp_finite (e_m (s' ! j))))"
proof (intro conjI impI)
  assume "valid_span sp st"
  then show "\<exists>s'. visit_process A proc (sp, st) = Some s'"
    by (simp add: visit_process_map_range)
  from \<open>valid_span sp st\<close> show "\<exists>s'. run_process_list A ps (sp, st) = Some s'"
    by (simp add: run_process_list_map_range)
next
  assume a: "charge p \<and>
    (fp_le (Finite 1) (beta_2 (ieee_arith lf ld) p) \<or>
     fp_le (beta_2 (ieee_arith lf ld) p) (Finite 0))"
  then have c: "charge p" and b: "fp_le (Finite 1) (beta_2 (ieee_arith lf ld) p) \<or>
     fp_le (beta_2 (ieee_arith lf ld) p) (Finite 0)" by simp_all
  show "\<not> fp_finite (e_m (energy_loss_T (ieee_arith lf ld) p))"
    using c b by (rule out_of_domain_nonfinite)
  then show "\<not> fp_finite (e_m (energy_loss (ieee_arith lf ld) p))"
    using c by (simp add: energy_loss_charged)
  show "\<not> fp_finite (e_m (energy_loss_elem (ieee_arith lf ld) p))"
    using c b by (rule out_of_domain_nonfinite)
next
  assume a: "valid_span sq sf \<and> begin_m sq \<le> j \<and> j < end_m sq \<and> charge (sf ! j) \<and>
    (fp_le (Finite 1) (beta_2 (ieee_arith lf ld) (sf ! j)) \<or>
     fp_le (beta_2 (ieee_arith lf ld) (sf ! j)) (Finite 0))"
  then have v: "valid_span sq sf" and j: "begin_m sq \<le> j" "j < end_m sq"
    and c: "charge (sf ! j)"
    and b: "fp_le (Finite 1) (beta_2 (ieee_arith lf ld) (sf ! j)) \<or>
     fp_le (beta_2 (ieee_arith lf ld) (sf ! j)) (Finite 0)" by simp_all
  from v have r: "begin_m sq \<le> end_m sq" "end_m sq \<le> length sf"
    by (simp_all add: valid_span_def)
  with j have l: "j < length sf" by simp
  have t: "\<not> fp_finite (e_m (energy_loss_T (ieee_arith lf ld) (sf ! j)))"
    using c b by (rule out_of_domain_nonfinite)
  have e: "\<not> fp_finite (e_m (energy_loss_elem (ieee_arith lf ld) (sf ! j)))"
    using c b by (rule out_of_domain_nonfinite)
  show "\<exists>s'. energy_loss_Span (ieee_arith lf ld) sq sf = Some s' \<and> \<not> fp_finite (e_m (s' ! j))"
    using e j l by (simp add: energy_loss_Span_map_range [OF v] nth_map_range)
  show "\<exists>s'. for_each (energy_loss (ieee_arith lf ld)) (begin_m sq) (end_m sq) sf = Some s' \<and>
            \<not> fp_finite (e_m (s' ! j))"
    using t c j l by (simp add: for_each_map_range [OF r] nth_map_range energy_loss_charged)
qed

text \<open>
  At \<open>px = e = 1\<close> the program's \<open>beta_2\<close> is 1; at \<open>px = 2\<^sup>-\<^sup>1\<^sup>0\<^sup>0\<close> the square underflows and
  the program's \<open>beta_2\<close> is 0.
\<close>

theorem energy_loss_no_error_witness:
  "valid_span unit_span [tiny_Particle] \<and>
   (\<exists>s'. run_process_list (ieee_arith ln ln) [ContinuousEnergyLoss, ContinuousEnergyLossNoEigen]
      (unit_span, [tiny_Particle]) = Some s') \<and>
   charge (mk_fp_Particle 1 1 1 0) \<and>
   beta_2 (ieee_arith ln ln) (mk_fp_Particle 1 1 1 0) = Finite 1 \<and>
   \<not> fp_finite (e_m (energy_loss (ieee_arith ln ln) (mk_fp_Particle 1 1 1 0))) \<and>
   \<not> fp_finite (e_m (energy_loss_elem (ieee_arith ln ln) (mk_fp_Particle 1 1 1 0))) \<and>
   charge tiny_Particle \<and>
   beta_2 (ieee_arith ln ln) tiny_Particle = Finite 0 \<and>
   (\<exists>s'. energy_loss_Span (ieee_arith ln ln) unit_span [tiny_Particle] = Some s' \<and>
         \<not> fp_finite (e_m (s' ! 0))) \<and>
   (\<exists>s'. for_each (energy_loss (ieee_arith ln ln)) 0 1 [tiny_Particle] = Some s' \<and>
         \<not> fp_finite (e_m (s' ! 0)))"
proof -
  have v: "valid_span unit_span [tiny_Particle]" by (rule valid_unit)
  have c: "charge (mk_fp_Particle 1 1 1 0)" "charge tiny_Particle"
    by (simp_all add: charge_def mk_fp_Particle_def tiny_Particle_def)
  have b: "fp_le (Finite 1) (beta_2 (ieee_arith ln ln) (mk_fp_Particle 1 1 1 0))"
    by (simp add: beta_2_one fp_le_def)
  have t: "fp_le (beta_2 (ieee_arith ln ln) ([tiny_Particle] ! 0)) (Finite 0)"
    by (simp add: beta_2_tiny fp_le_def)
  note n = energy_loss_no_error [of unit_span "[tiny_Particle]" "ieee_arith ln ln"
      ContinuousEnergyLoss "[ContinuousEnergyLoss, ContinuousEnergyLossNoEigen]"
      "mk_fp_Particle 1 1 1 0" ln ln unit_span "[tiny_Particle]" 0]
  from n v have 1: "\<exists>s'. run_process_list (ieee_arith ln ln)
      [ContinuousEnergyLoss, ContinuousEnergyLossNoEigen] (unit_span, [tiny_Particle]) = Some s'"
    by blast
  from n c(1) b have 2: "\<not> fp_finite (e_m (energy_loss (ieee_arith ln ln) (mk_fp_Particle 1 1 1 0)))"
    "\<not> fp_finite (e_m (energy_loss_elem (ieee_arith ln ln) (mk_fp_Particle 1 1 1 0)))"
    by blast+
  have "begin_m unit_span \<le> 0 \<and> 0 < end_m unit_span \<and> charge ([tiny_Particle] ! 0)"
    using c(2) by (simp add: unit_span_def)
  with n v t have 3:
    "\<exists>s'. energy_loss_Span (ieee_arith ln ln) unit_span [tiny_Particle] = Some s' \<and>
         \<not> fp_finite (e_m (s' ! 0))"
    "\<exists>s'. for_each (energy_loss (ieee_arith ln ln)) (begin_m unit_span) (end_m unit_span)
          [tiny_Particle] = Some s' \<and> \<not> fp_finite (e_m (s' ! 0))"
    by blast+
  from 3(2) have 4: "\<exists>s'. for_each (energy_loss (ieee_arith ln ln)) 0 1 [tiny_Particle] = Some s' \<and>
         \<not> fp_finite (e_m (s' ! 0))"
    by (simp add: unit_span_def)
  from v 1 c 2 3(1) 4 show ?thesis
    by (simp add: beta_2_one beta_2_tiny)
qed

section \<open>The specialised overload and the generic form\<close>



section \<open>The single-record forms against the batch form\<close>




end
